theory Spec2Isabelle
  imports Complex_Main "HOL-Library.Sublist"
begin

section \<open>Values of the JavaScript runtime\<close>

text \<open>
  The controller of \<^verbatim>\<open>src/public/app.js\<close> is the class \<^verbatim>\<open>MonadDemo\<close>. Its methods are
  embedded as functions on an explicit state: the fields of \<^verbatim>\<open>this\<close>, the document, and
  the effects a run leaves behind (requests to external capabilities in the order they are
  issued, console output, alerts, pending timers). Every answer of an external capability
  is read from an environment, so a method is a function of the environment and the state.
  A method runs to completion in the model: every awaited call settles, and other handlers
  that the event loop could run at an \<^verbatim>\<open>await\<close> are not interleaved. Every element the
  source looks up by id exists in the document.

  A JavaScript number is \<^verbatim>\<open>NaN\<close>, an infinity or a finite value. The source compares the
  text of an input field with the literals \<^verbatim>\<open>0\<close> and \<^verbatim>\<open>1000\<close>; the runtime first converts
  the text to a number, and every comparison with \<^verbatim>\<open>NaN\<close> is false.
\<close>

datatype jsnum = NaN | NegInfinity | Finite real | PosInfinity

fun js_le :: "jsnum \<Rightarrow> real \<Rightarrow> bool" where
  "js_le NaN c = False"
| "js_le NegInfinity c = True"
| "js_le (Finite x) c = (x \<le> c)"
| "js_le PosInfinity c = False"

fun js_gt :: "jsnum \<Rightarrow> real \<Rightarrow> bool" where
  "js_gt NaN c = False"
| "js_gt NegInfinity c = False"
| "js_gt (Finite x) c = (x > c)"
| "js_gt PosInfinity c = True"

text \<open>
  An awaited call either resolves with a value or rejects with an error, of which the
  source reads only \<^verbatim>\<open>error.message\<close>: \<open>Inl\<close> carries that message.
\<close>

type_synonym 'a outcome = "string + 'a"

text \<open>
  What \<^verbatim>\<open>fetch\<close> followed by \<^verbatim>\<open>response.json()\<close> can give: the fetch rejects; it resolves
  with \<^verbatim>\<open>ok\<close> false; it resolves with \<^verbatim>\<open>ok\<close> true and decoding the body rejects; or the
  body decodes.
\<close>

datatype 'a response = Rejected string | NotOk | BadBody string | Body 'a

fun rejection :: "'a response \<Rightarrow> string option" where
  "rejection (Rejected m) = Some m"
| "rejection _ = None"

section \<open>Data of the controller\<close>

record contract_info =
  address :: "string option"
  explorerUrl :: string
  name :: "string option"
  symbol :: "string option"
  totalSupply :: "string option"
  maxSupply :: "string option"

type_synonym abi = "string list"

datatype provider = Web3Provider
datatype signer = JsonRpcSigner
datatype contract = Contract string abi "signer option"

record tx =
  type :: string
  hash :: string
  details :: string
  timestamp :: nat

record currency =
  currencyName :: string
  currencySymbol :: string
  decimals :: nat

record chain_params =
  chainId :: string
  chainName :: string
  nativeCurrency :: currency
  rpcUrls :: "string list"
  blockExplorerUrls :: "string list"

text \<open>Requests that leave the page, in the vocabulary of the source.\<close>

datatype call =
    Fetch string
  | Request string "chain_params list"
  | GetAddress
  | GetNetwork
  | GetBalance string
  | BalanceOf string
  | Whitelist string
  | WhitelistMint int
  | TransferCall string int
  | Wait string

record element =
  innerHTML :: string
  classList :: "string list"
  val :: string
  disabled :: bool
  href :: string
  color :: string

record app =
  provider :: "provider option"
  signer :: "signer option"
  contract :: "contract option"
  contractAddress :: "string option"
  contractABI :: "abi option"
  userAddress :: "string option"
  txHistory :: "tx list"
  document :: "string \<Rightarrow> element"
  listeners :: "string list"
  calls :: "call list"
  console :: "(string \<times> string) list"
  alerts :: "string list"
  timers :: "(string \<times> nat) list"

text \<open>
  The environment of one run: whether a wallet is injected (\<^verbatim>\<open>window.ethereum\<close>), the
  runtime's conversion of a string to a number, the functions of the \<^verbatim>\<open>ethers\<close> library
  that the source calls, the clock, and the answer of each external request.
\<close>

record env =
  ethereum :: bool
  toNumber :: "string \<Rightarrow> jsnum"
  isAddress :: "string \<Rightarrow> bool"
  parseEther :: "string \<Rightarrow> int outcome"
  formatEther :: "int \<Rightarrow> string"
  formatEtherText :: "string \<Rightarrow> string outcome"
  toLocaleString :: "nat \<Rightarrow> string"
  now :: nat
  fetch_contract_info :: "contract_info response"
  fetch_contract_abi :: "abi option response"
  refetch_contract_info :: "contract_info response"
  eth_accounts :: "string list outcome"
  eth_requestAccounts :: "unit outcome"
  getAddress :: "string outcome"
  getNetwork :: "int outcome"
  getBalance :: "string \<Rightarrow> int outcome"
  balanceOf :: "string \<Rightarrow> int outcome"
  whitelist :: "string \<Rightarrow> bool outcome"
  whitelistMint :: "int \<Rightarrow> string outcome"
  transfer :: "string \<Rightarrow> int \<Rightarrow> string outcome"
  wait :: "string \<Rightarrow> unit outcome"
  wallet_addEthereumChain :: "unit outcome"

section \<open>Helpers on the state\<close>

definition issue :: "call \<Rightarrow> app \<Rightarrow> app" where
  "issue c s = s\<lparr>calls := calls s @ [c]\<rparr>"

definition console_error :: "string \<Rightarrow> string \<Rightarrow> app \<Rightarrow> app" where
  "console_error label msg s = s\<lparr>console := console s @ [(label, msg)]\<rparr>"

definition alert :: "string \<Rightarrow> app \<Rightarrow> app" where
  "alert msg s = s\<lparr>alerts := alerts s @ [msg]\<rparr>"

definition set_element :: "string \<Rightarrow> (element \<Rightarrow> element) \<Rightarrow> app \<Rightarrow> app" where
  "set_element elementId f s = s\<lparr>document := (document s)(elementId := f (document s elementId))\<rparr>"

definition classList_add :: "string \<Rightarrow> string list \<Rightarrow> string list" where
  "classList_add c cs = (if c \<in> set cs then cs else cs @ [c])"

definition classList_remove :: "string \<Rightarrow> string list \<Rightarrow> string list" where
  "classList_remove c cs = removeAll c cs"

definition formatAddress :: "string \<Rightarrow> string" where
  "formatAddress a = take 6 a @ ''...'' @ drop (length a - 4) a"

section \<open>Status messages and their timer\<close>

text \<open>
  \<^verbatim>\<open>showStatus(elementId, message, type)\<close>. A success message starts a timer of 5000 ms
  whose callback hides the element; the timer's handle is dropped, so nothing can clear it.
\<close>

definition showStatus :: "string \<Rightarrow> string \<Rightarrow> string \<Rightarrow> app \<Rightarrow> app" where
  "showStatus elementId message ty s =
     (let s1 = set_element elementId
                 (\<lambda>e. e\<lparr>innerHTML := message,
                         classList := classList_remove ''hidden'' [''status'', ty]\<rparr>) s
      in if ty = ''success'' then s1\<lparr>timers := timers s1 @ [(elementId, 5000)]\<rparr> else s1)"

text \<open>
  The event loop runs the callback of the \<open>i\<close>-th pending timer: the timer leaves the queue
  and its element gets the class \<^verbatim>\<open>hidden\<close>.
\<close>

definition fire_timer :: "nat \<Rightarrow> app \<Rightarrow> app" where
  "fire_timer i s =
     (if i < length (timers s)
      then set_element (fst (timers s ! i)) (\<lambda>e. e\<lparr>classList := classList_add ''hidden'' (classList e)\<rparr>)
             (s\<lparr>timers := take i (timers s) @ drop (Suc i) (timers s)\<rparr>)
      else s)"

section \<open>The transaction log and its display\<close>

definition line :: "nat \<Rightarrow> string \<Rightarrow> string" where
  "line n txt = CHR 0x0A # replicate n (CHR '' '') @ txt"

text \<open>The template literal of \<^verbatim>\<open>updateTransactionHistory\<close>, line by line.\<close>

definition tx_html :: "env \<Rightarrow> tx \<Rightarrow> string" where
  \<open>tx_html env t =
     line 12 ''<div style="padding: 10px; border-bottom: 1px solid #eee; margin-bottom: 10px;">''
   @ line 16 ''<div style="display: flex; justify-content: space-between; align-items: center;">''
   @ line 20 (''<strong>'' @ type t @ ''</strong>'')
   @ line 20 (''<span style="font-size: 12px; color: #666;">'' @ toLocaleString env (timestamp t) @ ''</span>'')
   @ line 16 ''</div>''
   @ line 16 (''<div style="font-size: 14px; margin: 5px 0;">'' @ details t @ ''</div>'')
   @ line 16 ''<div>''
   @ line 20 (''<a href="https://explorer-testnet.monad.xyz/tx/'' @ hash t @ ''" target="_blank" class="link">'')
   @ line 24 ''View Transaction''
   @ line 20 ''</a>''
   @ line 16 ''</div>''
   @ line 12 ''</div>''
   @ line 8 []\<close>

text \<open>\<^verbatim>\<open>this.txHistory.slice(0, 10).map(tx => ...)\<close>: one fragment for each entry shown.\<close>

definition history_entries :: "env \<Rightarrow> tx list \<Rightarrow> string list" where
  "history_entries env h = map (tx_html env) (take 10 h)"

definition updateTransactionHistory :: "env \<Rightarrow> app \<Rightarrow> app" where
  "updateTransactionHistory env s =
     (if length (txHistory s) = 0
      then set_element ''txHistory'' (\<lambda>e. e\<lparr>innerHTML := ''<p>No transactions yet...</p>''\<rparr>) s
      else set_element ''txHistory''
             (\<lambda>e. e\<lparr>innerHTML := concat (history_entries env (txHistory s))\<rparr>) s)"

definition addTransaction :: "env \<Rightarrow> string \<Rightarrow> string \<Rightarrow> string \<Rightarrow> app \<Rightarrow> app" where
  "addTransaction env ty h d s =
     updateTransactionHistory env
       (s\<lparr>txHistory := \<lparr>type = ty, hash = h, details = d, timestamp = now env\<rparr> # txHistory s\<rparr>)"

section \<open>Account view\<close>

definition whitelisted_text :: string where
  "whitelisted_text = [CHR 0xE2, CHR 0x9C, CHR 0x85] @ '' Whitelisted''"

definition not_whitelisted_text :: string where
  "not_whitelisted_text = [CHR 0xE2, CHR 0x9D, CHR 0x8C] @ '' Not Whitelisted''"

definition updateTokenInfo :: "env \<Rightarrow> app \<Rightarrow> app" where
  "updateTokenInfo env s =
     (case contract s of
        None \<Rightarrow> s
      | Some c \<Rightarrow>
         (case userAddress s of
            None \<Rightarrow> s
          | Some a \<Rightarrow>
             (if a = [] then s
              else
                (let s1 = issue (BalanceOf a) s in
                 (case balanceOf env a of
                    Inl m \<Rightarrow> console_error ''Failed to update token info:'' m s1
                  | Inr balance \<Rightarrow>
                     (let s2 = set_element ''userBalance''
                                 (\<lambda>e. e\<lparr>innerHTML := formatEther env balance @ '' CHAL''\<rparr>) s1;
                          s3 = issue (Whitelist a) s2
                      in (case whitelist env a of
                            Inl m \<Rightarrow> console_error ''Failed to update token info:'' m s3
                          | Inr isWhitelisted \<Rightarrow>
                             set_element ''whitelistStatus''
                               (\<lambda>e. e\<lparr>innerHTML := (if isWhitelisted then whitelisted_text
                                                      else not_whitelisted_text),
                                       color := (if isWhitelisted then ''green'' else ''red'')\<rparr>)
                               s3)))))))"

text \<open>
  \<^verbatim>\<open>updateUI\<close> has no handler of its own: a rejected balance query propagates to the caller,
  with the writes made so far. The first component is the message of the error thrown.
\<close>

definition updateUI :: "env \<Rightarrow> app \<Rightarrow> string option \<times> app" where
  "updateUI env s =
     (case userAddress s of
        None \<Rightarrow> (None, s)
      | Some a \<Rightarrow>
         (if a = [] then (None, s)
          else
            (let s1 = set_element ''accountAddress'' (\<lambda>e. e\<lparr>innerHTML := formatAddress a\<rparr>) s;
                 s2 = issue (GetBalance a) s1
             in (case getBalance env a of
                   Inl m \<Rightarrow> (Some m, s2)
                 | Inr balance \<Rightarrow>
                    (let s3 = set_element ''accountBalance''
                                (\<lambda>e. e\<lparr>innerHTML := formatEther env balance\<rparr>) s2;
                         s4 = set_element ''accountInfo''
                                (\<lambda>e. e\<lparr>classList := classList_remove ''hidden'' (classList e)\<rparr>) s3;
                         s5 = set_element ''connectBtn''
                                (\<lambda>e. e\<lparr>innerHTML := ''Connected'', disabled := True\<rparr>) s4;
                         s6 = set_element ''mintBtn'' (\<lambda>e. e\<lparr>disabled := False\<rparr>) s5;
                         s7 = set_element ''transferBtn'' (\<lambda>e. e\<lparr>disabled := False\<rparr>) s6
                     in (None, updateTokenInfo env s7))))))"

section \<open>Connect\<close>

definition connect_catch :: "string \<Rightarrow> app \<Rightarrow> app" where
  "connect_catch m s =
     showStatus ''connectionStatus'' (''Connection failed: '' @ m) ''error''
       (console_error ''Connection error:'' m s)"

text \<open>Lines 88 to 90: bind the contract when address and descriptor are both loaded.\<close>

definition bind_contract :: "app \<Rightarrow> app" where
  "bind_contract s =
     (case (contractAddress s, contractABI s) of
        (Some a, Some d) \<Rightarrow>
          if a \<noteq> [] then s\<lparr>contract := Some (Contract a d (signer s))\<rparr> else s
      | _ \<Rightarrow> s)"

text \<open>Lines 87 to 93.\<close>

definition connect_contract :: "env \<Rightarrow> app \<Rightarrow> app" where
  "connect_contract env s =
     (case updateUI env (bind_contract s) of
        (Some m, s2) \<Rightarrow> connect_catch m s2
      | (None, s2) \<Rightarrow>
         showStatus ''connectionStatus'' ''Wallet connected successfully!'' ''success'' s2)"

text \<open>Lines 80 to 85: the network check.\<close>

definition connect_network :: "env \<Rightarrow> app \<Rightarrow> app" where
  "connect_network env s =
     (let s1 = issue GetNetwork s in
      case getNetwork env of
        Inl m \<Rightarrow> connect_catch m s1
      | Inr network_chainId \<Rightarrow>
         if network_chainId \<noteq> 41454
         then showStatus ''connectionStatus'' ''Please switch to Monad Testnet'' ''error'' s1
         else connect_contract env s1)"

text \<open>Lines 76 to 78: provider, signer and address are stored as they are obtained.\<close>

definition connect_session :: "env \<Rightarrow> app \<Rightarrow> app" where
  "connect_session env s =
     (let s1 = s\<lparr>provider := Some Web3Provider\<rparr>;
          s2 = s1\<lparr>signer := Some JsonRpcSigner\<rparr>;
          s3 = issue GetAddress s2
      in case getAddress env of
           Inl m \<Rightarrow> connect_catch m s3
         | Inr a \<Rightarrow> connect_network env (s3\<lparr>userAddress := Some a\<rparr>))"

definition connectWallet :: "env \<Rightarrow> bool \<Rightarrow> app \<Rightarrow> app" where
  "connectWallet env requestConnection s =
     (if \<not> ethereum env then connect_catch ''Please install MetaMask'' s
      else if requestConnection
      then (let s1 = issue (Request ''eth_requestAccounts'' []) s in
            case eth_requestAccounts env of
              Inl m \<Rightarrow> connect_catch m s1
            | Inr u \<Rightarrow> connect_session env s1)
      else connect_session env s)"

definition checkWalletConnection :: "env \<Rightarrow> app \<Rightarrow> app" where
  "checkWalletConnection env s =
     (if ethereum env
      then (let s1 = issue (Request ''eth_accounts'' []) s in
            case eth_accounts env of
              Inl m \<Rightarrow> console_error ''Error checking wallet connection:'' m s1
            | Inr accounts \<Rightarrow>
               if length accounts > 0 then connectWallet env False s1 else s1)
      else showStatus ''connectionStatus''
             ''Please install MetaMask or another Web3 wallet'' ''error'' s)"

section \<open>Initialize\<close>

definition load_catch :: "string \<Rightarrow> app \<Rightarrow> app" where
  "load_catch m s = console_error ''Failed to load contract info:'' m s"

text \<open>Lines 35 to 38: the second response, once the first has been handled.\<close>

definition load_abi :: "env \<Rightarrow> app \<Rightarrow> app" where
  "load_abi env s =
     (case fetch_contract_abi env of
        Rejected m \<Rightarrow> load_catch m s
      | NotOk \<Rightarrow> s
      | BadBody m \<Rightarrow> load_catch m s
      | Body abiData_abi \<Rightarrow> s\<lparr>contractABI := abiData_abi\<rparr>)"

text \<open>
  \<^verbatim>\<open>loadContractInfo\<close>: both fetches are issued, then \<^verbatim>\<open>Promise.all\<close> is awaited inside
  one \<^verbatim>\<open>try\<close>. If either fetch rejects, control goes to the handler before either response
  is looked at. (When both reject, \<^verbatim>\<open>Promise.all\<close> reports the rejection that happens
  first; the model reports that of the first argument.)
\<close>

definition loadContractInfo :: "env \<Rightarrow> app \<Rightarrow> app" where
  "loadContractInfo env s =
     (let s1 = issue (Fetch ''/api/contract-abi'') (issue (Fetch ''/api/contract-info'') s) in
      (case rejection (fetch_contract_info env) of
         Some m \<Rightarrow> load_catch m s1
       | None \<Rightarrow>
          (case rejection (fetch_contract_abi env) of
             Some m \<Rightarrow> load_catch m s1
           | None \<Rightarrow>
              (case fetch_contract_info env of
                 Rejected m \<Rightarrow> load_catch m s1
               | NotOk \<Rightarrow> load_abi env s1
               | BadBody m \<Rightarrow> load_catch m s1
               | Body contractData \<Rightarrow>
                  load_abi env
                    (set_element ''contractLink'' (\<lambda>e. e\<lparr>href := explorerUrl contractData\<rparr>)
                       (s1\<lparr>contractAddress := address contractData\<rparr>))))))"

definition setupEventListeners :: "app \<Rightarrow> app" where
  "setupEventListeners s =
     s\<lparr>listeners := listeners s @ [''connectBtn'', ''mintBtn'', ''transferBtn'', ''addNetworkBtn'']\<rparr>"

text \<open>\<^verbatim>\<open>data.name || 'N/A'\<close> and \<^verbatim>\<open>data.totalSupply ? formatEther(data.totalSupply) : 'N/A'\<close>.\<close>

definition or_NA :: "string option \<Rightarrow> string" where
  "or_NA x = (case x of None \<Rightarrow> ''N/A'' | Some v \<Rightarrow> if v = [] then ''N/A'' else v)"

definition supply_text :: "env \<Rightarrow> string option \<Rightarrow> string outcome" where
  "supply_text env x =
     (case x of None \<Rightarrow> Inr ''N/A'' | Some v \<Rightarrow> if v = [] then Inr ''N/A'' else formatEtherText env v)"

definition update_catch :: "string \<Rightarrow> app \<Rightarrow> app" where
  "update_catch m s = console_error ''Failed to update contract info:'' m s"

definition updateContractInfo :: "env \<Rightarrow> app \<Rightarrow> app" where
  "updateContractInfo env s =
     (let s1 = issue (Fetch ''/api/contract-info'') s in
      (case refetch_contract_info env of
         Rejected m \<Rightarrow> update_catch m s1
       | NotOk \<Rightarrow> s1
       | BadBody m \<Rightarrow> update_catch m s1
       | Body data \<Rightarrow>
          (let s2 = set_element ''tokenName'' (\<lambda>e. e\<lparr>innerHTML := or_NA (name data)\<rparr>) s1;
               s3 = set_element ''tokenSymbol'' (\<lambda>e. e\<lparr>innerHTML := or_NA (symbol data)\<rparr>) s2
           in (case supply_text env (totalSupply data) of
                 Inl m \<Rightarrow> update_catch m s3
               | Inr t \<Rightarrow>
                  (let s4 = set_element ''totalSupply'' (\<lambda>e. e\<lparr>innerHTML := t\<rparr>) s3 in
                   (case supply_text env (maxSupply data) of
                      Inl m \<Rightarrow> update_catch m s4
                    | Inr t' \<Rightarrow> set_element ''maxSupply'' (\<lambda>e. e\<lparr>innerHTML := t'\<rparr>) s4))))))"

text \<open>
  \<^verbatim>\<open>init\<close>. The source does not await \<^verbatim>\<open>checkWalletConnection\<close>, so its continuation may
  interleave with \<^verbatim>\<open>updateContractInfo\<close>; the two write different fields and elements, and
  the model runs them one after the other.
\<close>

definition init :: "env \<Rightarrow> app \<Rightarrow> app" where
  "init env s =
     updateContractInfo env
       (checkWalletConnection env (setupEventListeners (loadContractInfo env s)))"

text \<open>The fields set by the constructor, over the document \<open>page\<close> as loaded.\<close>

definition MonadDemo :: "(string \<Rightarrow> element) \<Rightarrow> app" where
  "MonadDemo page =
     \<lparr>provider = None, signer = None, contract = None, contractAddress = None,
      contractABI = None, userAddress = None, txHistory = [], document = page,
      listeners = [], calls = [], console = [], alerts = [], timers = []\<rparr>"

section \<open>Mint and Transfer\<close>

definition mint_catch :: "string \<Rightarrow> app \<Rightarrow> app" where
  "mint_catch m s =
     showStatus ''mintStatus'' (''Mint failed: '' @ m) ''error'' (console_error ''Mint error:'' m s)"

text \<open>Lines 181 to 184: the wait for confirmation and what follows it.\<close>

definition mint_confirm :: "env \<Rightarrow> string \<Rightarrow> string \<Rightarrow> app \<Rightarrow> app" where
  "mint_confirm env amount tx_hash s =
     (let s1 = issue (Wait tx_hash) s in
      (case wait env tx_hash of
         Inl m \<Rightarrow> mint_catch m s1
       | Inr u \<Rightarrow>
          updateTokenInfo env
            (showStatus ''mintStatus'' (''Successfully minted '' @ amount @ '' CHAL tokens!'')
               ''success'' s1)))"

text \<open>Lines 172 to 189: the \<^verbatim>\<open>try\<close> block of \<^verbatim>\<open>mintTokens\<close>.\<close>

definition mint_try :: "env \<Rightarrow> string \<Rightarrow> app \<Rightarrow> app" where
  \<open>mint_try env amount s =
     (let s1 = showStatus ''mintStatus'' ''Minting tokens... <div class="loading"></div>'' ''info'' s in
      (case parseEther env amount of
         Inl m \<Rightarrow> mint_catch m s1
       | Inr mintAmount \<Rightarrow>
          (let s2 = issue (WhitelistMint mintAmount) s1 in
           (case whitelistMint env mintAmount of
              Inl m \<Rightarrow> mint_catch m s2
            | Inr tx_hash \<Rightarrow>
               (let s3 = showStatus ''mintStatus'' (''Transaction sent: '' @ tx_hash) ''info'' s2;
                    s4 = addTransaction env ''Mint'' tx_hash (amount @ '' CHAL'') s3
                in mint_confirm env amount tx_hash s4)))))\<close>

definition mintTokens :: "env \<Rightarrow> app \<Rightarrow> app" where
  "mintTokens env s =
     (if contract s = None then s
      else
        (let amount = val (document s ''mintAmount'') in
         if amount = [] \<or> js_le (toNumber env amount) 0
         then showStatus ''mintStatus'' ''Please enter a valid amount'' ''error'' s
         else if js_gt (toNumber env amount) 1000
         then showStatus ''mintStatus'' ''Maximum mint amount is 1000 tokens'' ''error'' s
         else mint_try env amount s))"

definition transfer_catch :: "string \<Rightarrow> app \<Rightarrow> app" where
  "transfer_catch m s =
     showStatus ''transferStatus'' (''Transfer failed: '' @ m) ''error''
       (console_error ''Transfer error:'' m s)"

text \<open>Lines 217 to 224.\<close>

definition transfer_confirm :: "env \<Rightarrow> string \<Rightarrow> string \<Rightarrow> app \<Rightarrow> app" where
  "transfer_confirm env amount tx_hash s =
     (let s1 = issue (Wait tx_hash) s in
      (case wait env tx_hash of
         Inl m \<Rightarrow> transfer_catch m s1
       | Inr u \<Rightarrow>
          (let s2 = showStatus ''transferStatus'' (''Successfully transferred '' @ amount @ '' CHAL!'')
                      ''success'' s1;
               s3 = updateTokenInfo env s2;
               s4 = set_element ''transferTo'' (\<lambda>e. e\<lparr>val := []\<rparr>) s3
           in set_element ''transferAmount'' (\<lambda>e. e\<lparr>val := []\<rparr>) s4)))"

text \<open>Lines 208 to 229: the \<^verbatim>\<open>try\<close> block of \<^verbatim>\<open>transferTokens\<close>.\<close>

definition transfer_try :: "env \<Rightarrow> string \<Rightarrow> string \<Rightarrow> app \<Rightarrow> app" where
  \<open>transfer_try env to amount s =
     (let s1 = showStatus ''transferStatus'' ''Transferring tokens... <div class="loading"></div>''
                 ''info'' s in
      (case parseEther env amount of
         Inl m \<Rightarrow> transfer_catch m s1
       | Inr transferAmount \<Rightarrow>
          (let s2 = issue (TransferCall to transferAmount) s1 in
           (case transfer env to transferAmount of
              Inl m \<Rightarrow> transfer_catch m s2
            | Inr tx_hash \<Rightarrow>
               (let s3 = showStatus ''transferStatus'' (''Transaction sent: '' @ tx_hash) ''info'' s2;
                    s4 = addTransaction env ''Transfer'' tx_hash
                           (amount @ '' CHAL to '' @ formatAddress to) s3
                in transfer_confirm env amount tx_hash s4)))))\<close>

definition transferTokens :: "env \<Rightarrow> app \<Rightarrow> app" where
  "transferTokens env s =
     (if contract s = None then s
      else
        (let to = val (document s ''transferTo'');
             amount = val (document s ''transferAmount'')
         in if to = [] \<or> \<not> isAddress env to
            then showStatus ''transferStatus'' ''Please enter a valid address'' ''error'' s
            else if amount = [] \<or> js_le (toNumber env amount) 0
            then showStatus ''transferStatus'' ''Please enter a valid amount'' ''error'' s
            else transfer_try env to amount s))"

section \<open>AddNetworkToWallet\<close>

definition monad_testnet :: chain_params where
  "monad_testnet =
     \<lparr>chainId = ''0xA1F6'', chainName = ''Monad Testnet'',
      nativeCurrency = \<lparr>currencyName = ''Monad'', currencySymbol = ''MON'', decimals = 18\<rparr>,
      rpcUrls = [''https://testnet1.monad.xyz''],
      blockExplorerUrls = [''https://explorer-testnet.monad.xyz'']\<rparr>"

definition add_catch :: "string \<Rightarrow> app \<Rightarrow> app" where
  "add_catch m s =
     alert (''Failed to add network: '' @ m) (console_error ''Failed to add network:'' m s)"

text \<open>
  \<^verbatim>\<open>addNetwork\<close> does not test \<^verbatim>\<open>window.ethereum\<close>: without a wallet, reading \<^verbatim>\<open>request\<close> of
  \<^verbatim>\<open>undefined\<close> throws a TypeError inside the \<^verbatim>\<open>try\<close> (the message is the engine's; this is
  V8's wording) and no request is made.
\<close>

definition undefined_request :: string where
  "undefined_request = ''Cannot read properties of undefined (reading '' @ [CHR 0x27] @ ''request'' @ [CHR 0x27] @ '')''"

definition addNetwork :: "env \<Rightarrow> app \<Rightarrow> app" where
  "addNetwork env s =
     (if \<not> ethereum env then add_catch undefined_request s
      else
        (let s1 = issue (Request ''wallet_addEthereumChain'' [monad_testnet]) s in
         (case wallet_addEthereumChain env of
            Inl m \<Rightarrow> add_catch m s1
          | Inr u \<Rightarrow> alert ''Monad Testnet added to your wallet!'' s1)))"

section \<open>Handlers, runs and observers\<close>

text \<open>
  The four click handlers registered by \<^verbatim>\<open>setupEventListeners\<close>. The handler of the connect
  button calls \<^verbatim>\<open>connectWallet()\<close>, whose parameter defaults to \<^verbatim>\<open>true\<close>. A run is a sequence
  of clicks, each with the environment that answers it.
\<close>

datatype click = ConnectBtn | MintBtn | TransferBtn | AddNetworkBtn

fun handler :: "env \<times> click \<Rightarrow> app \<Rightarrow> app" where
  "handler (env, ConnectBtn) s = connectWallet env True s"
| "handler (env, MintBtn) s = mintTokens env s"
| "handler (env, TransferBtn) s = transferTokens env s"
| "handler (env, AddNetworkBtn) s = addNetwork env s"

definition run :: "(env \<times> click) list \<Rightarrow> app \<Rightarrow> app" where
  "run evs s = fold handler evs s"

text \<open>
  A sequence of \<^verbatim>\<open>addTransaction\<close> calls, each given as the clock reading, type, hash and
  details, and the record each of them stores.
\<close>

fun record_of :: "nat \<times> string \<times> string \<times> string \<Rightarrow> tx" where
  "record_of (t, ty, h, d) = \<lparr>type = ty, hash = h, details = d, timestamp = t\<rparr>"

fun add_one :: "env \<Rightarrow> nat \<times> string \<times> string \<times> string \<Rightarrow> app \<Rightarrow> app" where
  "add_one env (t, ty, h, d) s = addTransaction (env\<lparr>now := t\<rparr>) ty h d s"

definition add_all :: "env \<Rightarrow> (nat \<times> string \<times> string \<times> string) list \<Rightarrow> app \<Rightarrow> app" where
  "add_all env adds s = fold (add_one env) adds s"

text \<open>
  The hash that the contract capability returned for a submission among the given requests,
  if any submission was made and accepted.
\<close>

fun submitted_hash :: "env \<Rightarrow> call list \<Rightarrow> string option" where
  "submitted_hash env [] = None"
| "submitted_hash env (WhitelistMint v # cs) =
     (case whitelistMint env v of Inr h \<Rightarrow> Some h | Inl m \<Rightarrow> submitted_hash env cs)"
| "submitted_hash env (TransferCall to v # cs) =
     (case transfer env to v of Inr h \<Rightarrow> Some h | Inl m \<Rightarrow> submitted_hash env cs)"
| "submitted_hash env (c # cs) = submitted_hash env cs"

text \<open>The requests a step added to the trace.\<close>

definition issued :: "app \<Rightarrow> app \<Rightarrow> call list" where
  "issued s s' = drop (length (calls s)) (calls s')"

text \<open>The number a hexadecimal chain id such as \<^verbatim>\<open>0xA1F6\<close> denotes.\<close>

definition hex_digit :: "char \<Rightarrow> nat option" where
  "hex_digit c =
     (let n = (of_char c :: nat) in
      if 48 \<le> n \<and> n \<le> 57 then Some (n - 48)
      else if 65 \<le> n \<and> n \<le> 70 then Some (n - 55)
      else if 97 \<le> n \<and> n \<le> 102 then Some (n - 87)
      else None)"

fun hex_digits :: "nat \<Rightarrow> string \<Rightarrow> nat option" where
  "hex_digits acc [] = Some acc"
| "hex_digits acc (c # cs) =
     (case hex_digit c of None \<Rightarrow> None | Some d \<Rightarrow> hex_digits (16 * acc + d) cs)"

fun hex_literal :: "string \<Rightarrow> nat option" where
  "hex_literal (a # b # c # cs) =
     (if a = CHR ''0'' \<and> b = CHR ''x'' then hex_digits 0 (c # cs) else None)"
| "hex_literal _ = None"

section \<open>Example inputs\<close>

text \<open>
  A document whose elements are blank except for the three input fields, a state with a
  bound contract over it, and an environment in which every capability answers. Of the
  runtime's number conversion and of \<^verbatim>\<open>parseEther\<close> the example environment fixes the values
  at the strings the examples use: \<^verbatim>\<open>Number("")\<close> is 0, \<^verbatim>\<open>Number("abc")\<close> is \<^verbatim>\<open>NaN\<close>, and
  \<^verbatim>\<open>parseEther("abc")\<close> throws.
\<close>

definition blank :: element where
  "blank = \<lparr>innerHTML = [], classList = [], val = [], disabled = False, href = [], color = []\<rparr>"

definition form :: "string \<Rightarrow> string \<Rightarrow> string \<Rightarrow> string \<Rightarrow> element" where
  "form mint to amount =
     (\<lambda>i. blank)(''mintAmount'' := blank\<lparr>val := mint\<rparr>,
                 ''transferTo'' := blank\<lparr>val := to\<rparr>,
                 ''transferAmount'' := blank\<lparr>val := amount\<rparr>)"

definition example_account :: string where
  "example_account = ''0x1111111111111111111111111111111111111111''"

definition example_token :: string where
  "example_token = ''0x2222222222222222222222222222222222222222''"

definition example_info :: contract_info where
  "example_info =
     \<lparr>address = Some example_token,
      explorerUrl = ''https://explorer-testnet.monad.xyz/address/'' @ example_token,
      name = Some ''Chalee'', symbol = Some ''CHAL'',
      totalSupply = Some ''0'', maxSupply = Some ''1000000000000000000000000''\<rparr>"

definition example_env :: env where
  "example_env =
     \<lparr>ethereum = True,
      toNumber = (\<lambda>t. NaN)([] := Finite 0, ''5'' := Finite 5, ''1001'' := Finite 1001,
                             ''5000'' := Finite 5000),
      isAddress = (\<lambda>a. a = example_account),
      parseEther = (\<lambda>t. Inl ''invalid decimal value'')
                     (''5'' := Inr 5000000000000000000, ''5000'' := Inr 5000000000000000000000),
      formatEther = (\<lambda>n. ''0.0''),
      formatEtherText = (\<lambda>t. Inr ''0.0''),
      toLocaleString = (\<lambda>t. ''1/1/2025, 12:00:00 AM''),
      now = 0,
      fetch_contract_info = Body example_info,
      fetch_contract_abi = Body (Some [''function whitelistMint(uint256)'']),
      refetch_contract_info = Body example_info,
      eth_accounts = Inr [example_account],
      eth_requestAccounts = Inr (),
      getAddress = Inr example_account,
      getNetwork = Inr 41454,
      getBalance = (\<lambda>a. Inr 0),
      balanceOf = (\<lambda>a. Inr 0),
      whitelist = (\<lambda>a. Inr True),
      whitelistMint = (\<lambda>n. Inr ''0xaa''),
      transfer = (\<lambda>a n. Inr ''0xbb''),
      wait = (\<lambda>h. Inr ()),
      wallet_addEthereumChain = Inr ()\<rparr>"

definition bound :: "string \<Rightarrow> string \<Rightarrow> string \<Rightarrow> app" where
  "bound mint to amount =
     (MonadDemo (form mint to amount))
       \<lparr>provider := Some Web3Provider, signer := Some JsonRpcSigner,
        contract := Some (Contract example_token [''function whitelistMint(uint256)'']
                          (Some JsonRpcSigner)),
        contractAddress := Some example_token,
        contractABI := Some [''function whitelistMint(uint256)''],
        userAddress := Some example_account\<rparr>"

text \<open>
  Variants of the example environment: the wallet is on chain 1; the wallet is on the chain
  that \<^verbatim>\<open>0xA1F6\<close> denotes; the contract-info fetch is rejected; the contract-info response
  is not a success.
\<close>

definition mainnet_env :: env where
  "mainnet_env = example_env\<lparr>getNetwork := Inr 1\<rparr>"

definition other_chain_env :: env where
  "other_chain_env = example_env\<lparr>getNetwork := Inr 41462\<rparr>"

definition info_down_env :: env where
  "info_down_env = example_env\<lparr>fetch_contract_info := Rejected ''Failed to fetch''\<rparr>"

definition info_404_env :: env where
  "info_404_env = example_env\<lparr>fetch_contract_info := NotOk\<rparr>"

text \<open>A state whose mint field holds an amount over the ceiling.\<close>

definition over_ceiling :: app where
  "over_ceiling = bound ''1001'' example_account ''5''"

text \<open>
  The mint slot shows a success; a click on the mint button with an amount over the ceiling
  then writes an error into the same slot.
\<close>

definition stale_success :: app where
  "stale_success =
     run [(example_env, MintBtn)]
       (showStatus ''mintStatus'' ''Successfully minted 5 CHAL tokens!'' ''success'' over_ceiling)"

text \<open>Eleven records, added in the order of their clock readings.\<close>

definition eleven :: "(nat \<times> string \<times> string \<times> string) list" where
  "eleven =
     [(1, ''Mint'', ''0x01'', ''5 CHAL''), (2, ''Mint'', ''0x02'', ''5 CHAL''),
      (3, ''Mint'', ''0x03'', ''5 CHAL''), (4, ''Mint'', ''0x04'', ''5 CHAL''),
      (5, ''Mint'', ''0x05'', ''5 CHAL''), (6, ''Mint'', ''0x06'', ''5 CHAL''),
      (7, ''Mint'', ''0x07'', ''5 CHAL''), (8, ''Mint'', ''0x08'', ''5 CHAL''),
      (9, ''Mint'', ''0x09'', ''5 CHAL''), (10, ''Mint'', ''0x0a'', ''5 CHAL''),
      (11, ''Mint'', ''0x0b'', ''5 CHAL'')]"

text \<open>
  Environments in which the wallet rejects a submission, and in which a submitted
  transaction fails to confirm; states whose amount fields hold \<^verbatim>\<open>abc\<close>, and whose transfer
  fields hold a malformed address or an amount over the mint ceiling.
\<close>

definition rejecting_env :: env where
  "rejecting_env =
     example_env\<lparr>whitelistMint := (\<lambda>n. Inl ''user rejected transaction''),
                  transfer := (\<lambda>a n. Inl ''user rejected transaction'')\<rparr>"

definition reverting_env :: env where
  "reverting_env = example_env\<lparr>wait := (\<lambda>h. Inl ''transaction failed'')\<rparr>"

definition nan_amount :: app where
  "nan_amount = bound ''abc'' example_account ''abc''"

definition bad_address :: app where
  "bad_address = bound ''5'' ''0x12'' ''5''"

definition large_transfer :: app where
  "large_transfer = bound ''5'' example_account ''5000''"

text \<open>
  An environment in which the runtime reads the text \<^verbatim>\<open>1e2\<close> as the number 100, as
  \<^verbatim>\<open>Number("1e2")\<close> does, while \<^verbatim>\<open>parseEther\<close> rejects it, and a state whose transfer amount
  field holds that text.
\<close>

definition exponent_env :: env where
  "exponent_env = example_env\<lparr>toNumber := (toNumber example_env)(''1e2'' := Finite 100)\<rparr>"

definition exponent_transfer :: app where
  "exponent_transfer = bound ''5'' example_account ''1e2''"

section \<open>What each helper changes\<close>

lemma issue_fields [simp]:
  "provider (issue c s) = provider s"
  "signer (issue c s) = signer s"
  "contract (issue c s) = contract s"
  "contractAddress (issue c s) = contractAddress s"
  "contractABI (issue c s) = contractABI s"
  "userAddress (issue c s) = userAddress s"
  "txHistory (issue c s) = txHistory s"
  "document (issue c s) = document s"
  "listeners (issue c s) = listeners s"
  "calls (issue c s) = calls s @ [c]"
  "console (issue c s) = console s"
  "alerts (issue c s) = alerts s"
  "timers (issue c s) = timers s"
  by (simp_all add: issue_def)

lemma console_error_fields [simp]:
  "provider (console_error l m s) = provider s"
  "signer (console_error l m s) = signer s"
  "contract (console_error l m s) = contract s"
  "contractAddress (console_error l m s) = contractAddress s"
  "contractABI (console_error l m s) = contractABI s"
  "userAddress (console_error l m s) = userAddress s"
  "txHistory (console_error l m s) = txHistory s"
  "document (console_error l m s) = document s"
  "listeners (console_error l m s) = listeners s"
  "calls (console_error l m s) = calls s"
  "console (console_error l m s) = console s @ [(l, m)]"
  "alerts (console_error l m s) = alerts s"
  "timers (console_error l m s) = timers s"
  by (simp_all add: console_error_def)

lemma alert_fields [simp]:
  "provider (alert m s) = provider s"
  "signer (alert m s) = signer s"
  "contract (alert m s) = contract s"
  "contractAddress (alert m s) = contractAddress s"
  "contractABI (alert m s) = contractABI s"
  "userAddress (alert m s) = userAddress s"
  "txHistory (alert m s) = txHistory s"
  "document (alert m s) = document s"
  "listeners (alert m s) = listeners s"
  "calls (alert m s) = calls s"
  "console (alert m s) = console s"
  "alerts (alert m s) = alerts s @ [m]"
  "timers (alert m s) = timers s"
  by (simp_all add: alert_def)

lemma set_element_fields [simp]:
  "provider (set_element i f s) = provider s"
  "signer (set_element i f s) = signer s"
  "contract (set_element i f s) = contract s"
  "contractAddress (set_element i f s) = contractAddress s"
  "contractABI (set_element i f s) = contractABI s"
  "userAddress (set_element i f s) = userAddress s"
  "txHistory (set_element i f s) = txHistory s"
  "document (set_element i f s) = (document s)(i := f (document s i))"
  "listeners (set_element i f s) = listeners s"
  "calls (set_element i f s) = calls s"
  "console (set_element i f s) = console s"
  "alerts (set_element i f s) = alerts s"
  "timers (set_element i f s) = timers s"
  by (simp_all add: set_element_def)

lemma showStatus_fields [simp]:
  "provider (showStatus i m ty s) = provider s"
  "signer (showStatus i m ty s) = signer s"
  "contract (showStatus i m ty s) = contract s"
  "contractAddress (showStatus i m ty s) = contractAddress s"
  "contractABI (showStatus i m ty s) = contractABI s"
  "userAddress (showStatus i m ty s) = userAddress s"
  "txHistory (showStatus i m ty s) = txHistory s"
  "listeners (showStatus i m ty s) = listeners s"
  "calls (showStatus i m ty s) = calls s"
  "console (showStatus i m ty s) = console s"
  "alerts (showStatus i m ty s) = alerts s"
  by (simp_all add: showStatus_def Let_def)

lemma showStatus_document [simp]:
  "document (showStatus i m ty s) =
     (document s)(i := (document s i)\<lparr>innerHTML := m, classList := classList_remove ''hidden'' [''status'', ty]\<rparr>)"
  by (simp add: showStatus_def Let_def)

lemma showStatus_timers [simp]:
  "timers (showStatus i m ty s) = timers s @ (if ty = ''success'' then [(i, 5000)] else [])"
  by (simp add: showStatus_def Let_def)

section \<open>Mint and Transfer without a bound contract\<close>

text \<open>
  Claim C8. When \<^verbatim>\<open>mintTokens\<close> or \<^verbatim>\<open>transferTokens\<close> runs while \<^verbatim>\<open>this.contract\<close> is
  absent, it returns at its first line: the whole state is what it was, so no request was
  issued, no status slot was written and no transaction record was added.
\<close>

theorem unbound_contract_no_effect:
  "contract s = None \<Longrightarrow> mintTokens env s = s \<and> transferTokens env s = s"
  by (simp add: mintTokens_def transferTokens_def)

theorem unbound_contract_no_effect_witness:
  "contract (MonadDemo (form ''5'' example_account ''5'')) = None
   \<and> mintTokens example_env (MonadDemo (form ''5'' example_account ''5''))
       = MonadDemo (form ''5'' example_account ''5'')
   \<and> transferTokens example_env (MonadDemo (form ''5'' example_account ''5''))
       = MonadDemo (form ''5'' example_account ''5'')"
  using unbound_contract_no_effect [of "MonadDemo (form ''5'' example_account ''5'')" example_env]
  by (simp add: MonadDemo_def)

section \<open>What each method leaves alone\<close>

lemma updateTokenInfo_frame [simp]:
  "provider (updateTokenInfo env s) = provider s"
  "signer (updateTokenInfo env s) = signer s"
  "contract (updateTokenInfo env s) = contract s"
  "contractAddress (updateTokenInfo env s) = contractAddress s"
  "contractABI (updateTokenInfo env s) = contractABI s"
  "userAddress (updateTokenInfo env s) = userAddress s"
  "txHistory (updateTokenInfo env s) = txHistory s"
  "listeners (updateTokenInfo env s) = listeners s"
  "alerts (updateTokenInfo env s) = alerts s"
  "timers (updateTokenInfo env s) = timers s"
  by (simp_all add: updateTokenInfo_def Let_def split: option.splits sum.splits)

lemma updateUI_frame:
  assumes "updateUI env s = (r, s')"
  shows "provider s' = provider s"
    "signer s' = signer s"
    "contract s' = contract s"
    "contractAddress s' = contractAddress s"
    "contractABI s' = contractABI s"
    "userAddress s' = userAddress s"
    "txHistory s' = txHistory s"
    "listeners s' = listeners s"
    "alerts s' = alerts s"
    "timers s' = timers s"
  using assms
  by (auto simp add: updateUI_def Let_def split: option.splits sum.splits if_splits)

lemma connect_catch_frame [simp]:
  "provider (connect_catch m s) = provider s"
  "signer (connect_catch m s) = signer s"
  "contract (connect_catch m s) = contract s"
  "contractAddress (connect_catch m s) = contractAddress s"
  "contractABI (connect_catch m s) = contractABI s"
  "userAddress (connect_catch m s) = userAddress s"
  "txHistory (connect_catch m s) = txHistory s"
  "listeners (connect_catch m s) = listeners s"
  "alerts (connect_catch m s) = alerts s"
  "timers (connect_catch m s) = timers s"
  by (simp_all add: connect_catch_def)

lemma bind_contract_frame [simp]:
  "provider (bind_contract s) = provider s"
  "signer (bind_contract s) = signer s"
  "contractAddress (bind_contract s) = contractAddress s"
  "contractABI (bind_contract s) = contractABI s"
  "userAddress (bind_contract s) = userAddress s"
  "txHistory (bind_contract s) = txHistory s"
  "listeners (bind_contract s) = listeners s"
  "alerts (bind_contract s) = alerts s"
  "timers (bind_contract s) = timers s"
  by (simp_all add: bind_contract_def split: option.splits)

lemma connect_contract_frame [simp]:
  "txHistory (connect_contract env s) = txHistory s"
  "listeners (connect_contract env s) = listeners s"
  "alerts (connect_contract env s) = alerts s"
  "prefix ts (timers s) \<Longrightarrow> prefix ts (timers (connect_contract env s))"
proof -
  obtain r s2 where u: "updateUI env (bind_contract s) = (r, s2)"
    by (cases "updateUI env (bind_contract s)")
  note f = updateUI_frame [OF u]
  show "txHistory (connect_contract env s) = txHistory s"
    by (cases r) (simp_all add: connect_contract_def u f)
  show "listeners (connect_contract env s) = listeners s"
    by (cases r) (simp_all add: connect_contract_def u f)
  show "alerts (connect_contract env s) = alerts s"
    by (cases r) (simp_all add: connect_contract_def u f)
  show "prefix ts (timers s) \<Longrightarrow> prefix ts (timers (connect_contract env s))"
    by (cases r) (simp_all add: connect_contract_def u f)
qed

lemma connectWallet_frame [simp]:
  "txHistory (connectWallet env rc s) = txHistory s"
  "listeners (connectWallet env rc s) = listeners s"
  "alerts (connectWallet env rc s) = alerts s"
  "prefix ts (timers s) \<Longrightarrow> prefix ts (timers (connectWallet env rc s))"
  by (simp_all add: connectWallet_def connect_session_def connect_network_def Let_def
      split: sum.splits)

lemma checkWalletConnection_frame [simp]:
  "txHistory (checkWalletConnection env s) = txHistory s"
  "listeners (checkWalletConnection env s) = listeners s"
  by (simp_all add: checkWalletConnection_def Let_def split: sum.splits)

lemma updateContractInfo_frame [simp]:
  "provider (updateContractInfo env s) = provider s"
  "signer (updateContractInfo env s) = signer s"
  "contract (updateContractInfo env s) = contract s"
  "contractAddress (updateContractInfo env s) = contractAddress s"
  "contractABI (updateContractInfo env s) = contractABI s"
  "userAddress (updateContractInfo env s) = userAddress s"
  "txHistory (updateContractInfo env s) = txHistory s"
  "listeners (updateContractInfo env s) = listeners s"
  by (simp_all add: updateContractInfo_def update_catch_def Let_def
      split: response.splits sum.splits)

lemma loadContractInfo_frame [simp]:
  "provider (loadContractInfo env s) = provider s"
  "signer (loadContractInfo env s) = signer s"
  "contract (loadContractInfo env s) = contract s"
  "userAddress (loadContractInfo env s) = userAddress s"
  "txHistory (loadContractInfo env s) = txHistory s"
  "listeners (loadContractInfo env s) = listeners s"
  "calls (loadContractInfo env s)
     = calls s @ [Fetch ''/api/contract-info'', Fetch ''/api/contract-abi'']"
  by (simp_all add: loadContractInfo_def load_abi_def load_catch_def Let_def
      split: response.splits option.splits)

section \<open>Connect on the wrong network\<close>

text \<open>
  Claim C1 says that a run of Connect on a network other than 41454 populates no session
  field, so that the session equals the disconnected one it started from. The source
  stores provider, signer and user address (lines 76 to 78) before it asks for the network
  (line 81). On chain 1, starting from the state the constructor builds, all three are
  present afterwards.
\<close>

theorem connect_wrong_network_fills_session:
  "getNetwork mainnet_env = Inr 1
   \<and> provider (MonadDemo (\<lambda>i. blank)) = None
   \<and> signer (MonadDemo (\<lambda>i. blank)) = None
   \<and> userAddress (MonadDemo (\<lambda>i. blank)) = None
   \<and> provider (connectWallet mainnet_env True (MonadDemo (\<lambda>i. blank))) = Some Web3Provider
   \<and> signer (connectWallet mainnet_env True (MonadDemo (\<lambda>i. blank))) = Some JsonRpcSigner
   \<and> userAddress (connectWallet mainnet_env True (MonadDemo (\<lambda>i. blank))) = Some example_account"
  by (simp add: mainnet_env_def example_env_def MonadDemo_def connectWallet_def
      connect_session_def connect_network_def Let_def)

text \<open>
  Claim C1, amended. In every run of Connect that reaches the network check and finds an
  identifier other than 41454, the contract stays as it was (unbound, from a disconnected
  session), and so do the contract address, the interface descriptor and the transaction
  log; the connection slot shows the request to switch network, and no request follows the
  network query. The provider, the signer and the user address have been stored by then.
\<close>

theorem connect_wrong_network:
  assumes "ethereum env"
    and "requestConnection \<longrightarrow> eth_requestAccounts env = Inr ()"
    and "getAddress env = Inr a"
    and "getNetwork env = Inr n"
    and "n \<noteq> 41454"
  shows "contract (connectWallet env requestConnection s) = contract s
    \<and> contractAddress (connectWallet env requestConnection s) = contractAddress s
    \<and> contractABI (connectWallet env requestConnection s) = contractABI s
    \<and> txHistory (connectWallet env requestConnection s) = txHistory s
    \<and> provider (connectWallet env requestConnection s) = Some Web3Provider
    \<and> signer (connectWallet env requestConnection s) = Some JsonRpcSigner
    \<and> userAddress (connectWallet env requestConnection s) = Some a
    \<and> innerHTML (document (connectWallet env requestConnection s) ''connectionStatus'')
        = ''Please switch to Monad Testnet''
    \<and> calls (connectWallet env requestConnection s)
        = calls s @ (if requestConnection then [Request ''eth_requestAccounts'' []] else [])
            @ [GetAddress, GetNetwork]"
  using assms
  by (simp add: connectWallet_def connect_session_def connect_network_def Let_def)

theorem connect_wrong_network_witness:
  "ethereum mainnet_env
   \<and> eth_requestAccounts mainnet_env = Inr ()
   \<and> getAddress mainnet_env = Inr example_account
   \<and> getNetwork mainnet_env = Inr 1
   \<and> contract (connectWallet mainnet_env True (MonadDemo (\<lambda>i. blank))) = None
   \<and> contractAddress (connectWallet mainnet_env True (MonadDemo (\<lambda>i. blank))) = None
   \<and> provider (connectWallet mainnet_env True (MonadDemo (\<lambda>i. blank))) = Some Web3Provider
   \<and> userAddress (connectWallet mainnet_env True (MonadDemo (\<lambda>i. blank))) = Some example_account
   \<and> calls (connectWallet mainnet_env True (MonadDemo (\<lambda>i. blank)))
       = [Request ''eth_requestAccounts'' [], GetAddress, GetNetwork]"
  using connect_wrong_network [of mainnet_env True example_account 1 "MonadDemo (\<lambda>i. blank)"]
  by (simp add: mainnet_env_def example_env_def MonadDemo_def)

section \<open>Loading the contract address and the interface descriptor\<close>

text \<open>
  Claim C5 says that the two loads of Initialize are independent: a failure of one is
  logged, leaves only its own field absent and does not affect the other. The source
  awaits both fetches with one \<^verbatim>\<open>Promise.all\<close> inside one \<^verbatim>\<open>try\<close>: when the contract-info
  fetch is rejected, the descriptor is not stored although its own fetch succeeded.
\<close>

theorem load_couples_the_fetches:
  "fetch_contract_info info_down_env = Rejected ''Failed to fetch''
   \<and> fetch_contract_abi info_down_env = Body (Some [''function whitelistMint(uint256)''])
   \<and> contractABI (loadContractInfo info_down_env (MonadDemo (\<lambda>i. blank))) = None
   \<and> contractAddress (loadContractInfo info_down_env (MonadDemo (\<lambda>i. blank))) = None"
  by (simp add: info_down_env_def example_env_def loadContractInfo_def load_catch_def
      MonadDemo_def Let_def)

text \<open>
  Claim C5, amended. Initialize issues both fetches and handles the two responses in one
  guarded block. The contract address is stored exactly when the contract-info body
  decodes and the descriptor fetch was not rejected; the descriptor is stored exactly when
  its body decodes and the contract-info response was a non-success or decoded. So a
  non-success response of either leaves only its own field absent and is not logged; a
  rejected fetch of either, or a contract-info body that does not decode, is logged and
  leaves both fields as they were; a descriptor body that does not decode is logged and
  leaves the contract address as loaded. At most one message is logged. None is fatal:
  Initialize goes on to register the four click handlers.
\<close>

theorem load_contract_info_outcomes:
  "contractAddress (loadContractInfo env s)
     = (case (fetch_contract_info env, rejection (fetch_contract_abi env)) of
          (Body contractData, None) \<Rightarrow> address contractData
        | _ \<Rightarrow> contractAddress s)
   \<and> contractABI (loadContractInfo env s)
     = (case (fetch_contract_info env, fetch_contract_abi env) of
          (NotOk, Body d) \<Rightarrow> d
        | (Body contractData, Body d) \<Rightarrow> d
        | _ \<Rightarrow> contractABI s)
   \<and> console (loadContractInfo env s)
     = console s @ map (Pair ''Failed to load contract info:'')
         (case (fetch_contract_info env, fetch_contract_abi env) of
            (Rejected m, r) \<Rightarrow> [m]
          | (i, Rejected m) \<Rightarrow> [m]
          | (BadBody m, r) \<Rightarrow> [m]
          | (i, BadBody m) \<Rightarrow> [m]
          | _ \<Rightarrow> [])
   \<and> listeners (init env s)
     = listeners s @ [''connectBtn'', ''mintBtn'', ''transferBtn'', ''addNetworkBtn'']"
  by (simp add: loadContractInfo_def load_abi_def load_catch_def Let_def init_def
      setupEventListeners_def split: response.splits option.splits)

theorem load_contract_info_outcomes_witness:
  "fetch_contract_info info_404_env = NotOk
   \<and> contractAddress (loadContractInfo info_404_env (MonadDemo (\<lambda>i. blank))) = None
   \<and> contractABI (loadContractInfo info_404_env (MonadDemo (\<lambda>i. blank)))
       = Some [''function whitelistMint(uint256)'']
   \<and> console (loadContractInfo info_404_env (MonadDemo (\<lambda>i. blank))) = []
   \<and> console (loadContractInfo info_down_env (MonadDemo (\<lambda>i. blank)))
       = [(''Failed to load contract info:'', ''Failed to fetch'')]
   \<and> listeners (init info_down_env (MonadDemo (\<lambda>i. blank)))
       = [''connectBtn'', ''mintBtn'', ''transferBtn'', ''addNetworkBtn'']"
  using load_contract_info_outcomes [of info_404_env "MonadDemo (\<lambda>i. blank)"]
    load_contract_info_outcomes [of info_down_env "MonadDemo (\<lambda>i. blank)"]
  by (simp add: info_404_env_def info_down_env_def example_env_def MonadDemo_def)

section \<open>AddNetworkToWallet\<close>

text \<open>
  With a wallet injected, \<^verbatim>\<open>addNetwork\<close> issues one registration request with the fixed
  parameters, whatever the session; without one it issues none. In both cases it shows one
  alert and leaves the session and the transaction log alone.
\<close>

lemma add_network_request:
  "calls (addNetwork env s)
     = calls s @ (if ethereum env then [Request ''wallet_addEthereumChain'' [monad_testnet]] else [])
   \<and> txHistory (addNetwork env s) = txHistory s
   \<and> provider (addNetwork env s) = provider s
   \<and> signer (addNetwork env s) = signer s
   \<and> contract (addNetwork env s) = contract s
   \<and> userAddress (addNetwork env s) = userAddress s
   \<and> length (alerts (addNetwork env s)) = Suc (length (alerts s))"
  by (simp add: addNetwork_def add_catch_def Let_def split: sum.splits)

text \<open>
  Claim C7 says that the registration request always carries chain id 41454, hex
  \<^verbatim>\<open>0xA1F6\<close>. The request of the source carries the text \<^verbatim>\<open>0xA1F6\<close>, with the comment
  \<^verbatim>\<open>41454 in hex\<close>; that text denotes 41462 (41454 is \<^verbatim>\<open>0xA1EE\<close>). A wallet on the chain
  the request registers is turned away by \<^verbatim>\<open>connectWallet\<close>, which compares with 41454.
\<close>

theorem add_network_chain_id:
  "calls (addNetwork example_env (MonadDemo (\<lambda>i. blank)))
     = [Request ''wallet_addEthereumChain'' [monad_testnet]]
   \<and> chainId monad_testnet = ''0xA1F6''
   \<and> hex_literal (chainId monad_testnet) = Some 41462
   \<and> hex_literal ''0xA1EE'' = Some 41454
   \<and> getNetwork other_chain_env = Inr 41462
   \<and> innerHTML (document (connectWallet other_chain_env True (MonadDemo (\<lambda>i. blank)))
        ''connectionStatus'') = ''Please switch to Monad Testnet''"
  by (simp add: example_env_def other_chain_env_def MonadDemo_def addNetwork_def Let_def
      monad_testnet_def hex_digit_def connectWallet_def connect_session_def connect_network_def)

section \<open>What logging, Mint and Transfer leave alone\<close>

lemma updateTransactionHistory_frame [simp]:
  "provider (updateTransactionHistory env s) = provider s"
  "signer (updateTransactionHistory env s) = signer s"
  "contract (updateTransactionHistory env s) = contract s"
  "contractAddress (updateTransactionHistory env s) = contractAddress s"
  "contractABI (updateTransactionHistory env s) = contractABI s"
  "userAddress (updateTransactionHistory env s) = userAddress s"
  "txHistory (updateTransactionHistory env s) = txHistory s"
  "listeners (updateTransactionHistory env s) = listeners s"
  "calls (updateTransactionHistory env s) = calls s"
  "console (updateTransactionHistory env s) = console s"
  "alerts (updateTransactionHistory env s) = alerts s"
  "timers (updateTransactionHistory env s) = timers s"
  by (simp_all add: updateTransactionHistory_def)

lemma addTransaction_frame [simp]:
  "provider (addTransaction env ty h d s) = provider s"
  "signer (addTransaction env ty h d s) = signer s"
  "contract (addTransaction env ty h d s) = contract s"
  "contractAddress (addTransaction env ty h d s) = contractAddress s"
  "contractABI (addTransaction env ty h d s) = contractABI s"
  "userAddress (addTransaction env ty h d s) = userAddress s"
  "txHistory (addTransaction env ty h d s)
     = \<lparr>type = ty, hash = h, details = d, timestamp = now env\<rparr> # txHistory s"
  "listeners (addTransaction env ty h d s) = listeners s"
  "calls (addTransaction env ty h d s) = calls s"
  "console (addTransaction env ty h d s) = console s"
  "alerts (addTransaction env ty h d s) = alerts s"
  "timers (addTransaction env ty h d s) = timers s"
  by (simp_all add: addTransaction_def)

lemma mint_catch_frame [simp]:
  "txHistory (mint_catch m s) = txHistory s"
  "calls (mint_catch m s) = calls s"
  "timers (mint_catch m s) = timers s"
  "contract (mint_catch m s) = contract s"
  by (simp_all add: mint_catch_def)

lemma transfer_catch_frame [simp]:
  "txHistory (transfer_catch m s) = txHistory s"
  "calls (transfer_catch m s) = calls s"
  "timers (transfer_catch m s) = timers s"
  "contract (transfer_catch m s) = contract s"
  by (simp_all add: transfer_catch_def)

lemma mint_confirm_frame [simp]:
  "txHistory (mint_confirm env amount h s) = txHistory s"
  "prefix ts (timers s) \<Longrightarrow> prefix ts (timers (mint_confirm env amount h s))"
  by (simp_all add: mint_confirm_def Let_def split: sum.splits)

lemma transfer_confirm_frame [simp]:
  "txHistory (transfer_confirm env amount h s) = txHistory s"
  "prefix ts (timers s) \<Longrightarrow> prefix ts (timers (transfer_confirm env amount h s))"
  by (simp_all add: transfer_confirm_def Let_def split: sum.splits)

lemma mint_try_timers [simp]:
  "prefix ts (timers s) \<Longrightarrow> prefix ts (timers (mint_try env amount s))"
  by (simp add: mint_try_def Let_def split: sum.splits)

lemma transfer_try_timers [simp]:
  "prefix ts (timers s) \<Longrightarrow> prefix ts (timers (transfer_try env to amount s))"
  by (simp add: transfer_try_def Let_def split: sum.splits)

lemma mintTokens_timers [simp]:
  "prefix ts (timers s) \<Longrightarrow> prefix ts (timers (mintTokens env s))"
  by (simp add: mintTokens_def Let_def)

lemma transferTokens_timers [simp]:
  "prefix ts (timers s) \<Longrightarrow> prefix ts (timers (transferTokens env s))"
  by (simp add: transferTokens_def Let_def)

lemma addNetwork_timers [simp]:
  "timers (addNetwork env s) = timers s"
  by (simp add: addNetwork_def add_catch_def Let_def split: sum.splits)

section \<open>The auto-dismiss timer\<close>

lemma handler_timers:
  "prefix ts (timers s) \<Longrightarrow> prefix ts (timers (handler ev s))"
proof (cases ev)
  case (Pair env c)
  assume "prefix ts (timers s)"
  then show ?thesis unfolding Pair by (cases c) simp_all
qed

lemma run_timers:
  "prefix ts (timers s) \<Longrightarrow> prefix ts (timers (run evs s))"
  unfolding run_def
  by (induction evs arbitrary: s) (simp_all add: handler_timers)

lemma pending_nth:
  assumes "prefix (ts @ [t]) us"
  shows "length ts < length us \<and> us ! length ts = t"
proof -
  from assms obtain vs where "us = (ts @ [t]) @ vs"
    by (auto simp add: prefix_def)
  then show ?thesis by simp
qed

lemma fire_timer_hides:
  assumes "i < length (timers s)" and "fst (timers s ! i) = slot"
  shows "''hidden'' \<in> set (classList (document (fire_timer i s) slot))"
    and "innerHTML (document (fire_timer i s) slot) = innerHTML (document s slot)"
  using assms by (simp_all add: fire_timer_def classList_add_def)

lemma pending_timer_fires:
  assumes "prefix (timers s @ [(slot, d)]) (timers s2)"
  shows "length (timers s) < length (timers s2)"
    and "timers s2 ! length (timers s) = (slot, d)"
    and "''hidden'' \<in> set (classList (document (fire_timer (length (timers s)) s2) slot))"
    and "innerHTML (document (fire_timer (length (timers s)) s2) slot) = innerHTML (document s2 slot)"
proof -
  from pending_nth [OF assms]
  show n: "length (timers s) < length (timers s2)"
    and t: "timers s2 ! length (timers s) = (slot, d)"
    by simp_all
  from t have f: "fst (timers s2 ! length (timers s)) = slot" by simp
  from fire_timer_hides [OF n f]
  show "''hidden'' \<in> set (classList (document (fire_timer (length (timers s)) s2) slot))"
    and "innerHTML (document (fire_timer (length (timers s)) s2) slot) = innerHTML (document s2 slot)"
    by simp_all
qed

text \<open>
  Claim C9. A success status appends a timer of 5000 ms for its slot. No handler and no
  later status write removes a pending timer: the queue only grows at its end. So after
  any clicks, and after any other message written to the same slot, the timer is still at
  its place in the queue; when it fires, the slot is hidden with the later message in it.
\<close>

theorem success_timer_never_cancelled:
  assumes "i = length (timers s)"
    and "s2 = run evs (showStatus slot m ''success'' s)"
    and "s3 = showStatus slot m' ty s2"
  shows "timers (showStatus slot m ''success'' s) = timers s @ [(slot, 5000)]
    \<and> prefix (timers s2) (timers (run evs' s2))
    \<and> prefix (timers s2) (timers s3)
    \<and> i < length (timers s2) \<and> timers s2 ! i = (slot, 5000)
    \<and> ''hidden'' \<in> set (classList (document (fire_timer i s2) slot))
    \<and> innerHTML (document (fire_timer i s2) slot) = innerHTML (document s2 slot)
    \<and> i < length (timers s3) \<and> timers s3 ! i = (slot, 5000)
    \<and> innerHTML (document s3 slot) = m'
    \<and> ''hidden'' \<notin> set (classList (document s3 slot))
    \<and> ''hidden'' \<in> set (classList (document (fire_timer i s3) slot))
    \<and> innerHTML (document (fire_timer i s3) slot) = m'"
proof -
  let ?s1 = "showStatus slot m ''success'' s"
  have "prefix (timers s @ [(slot, 5000)]) (timers ?s1)" by simp
  then have p2: "prefix (timers s @ [(slot, 5000)]) (timers s2)"
    unfolding assms(2) by (rule run_timers)
  then have p3: "prefix (timers s @ [(slot, 5000)]) (timers s3)"
    by (simp add: assms(3))
  have grow: "prefix (timers s2) (timers (run evs' s2))" "prefix (timers s2) (timers s3)"
    by (simp_all add: run_timers assms(3))
  have shown: "innerHTML (document s3 slot) = m'"
    "''hidden'' \<notin> set (classList (document s3 slot))"
    by (simp_all add: assms(3) classList_remove_def)
  show ?thesis
    using pending_timer_fires [OF p2] pending_timer_fires [OF p3] grow shown
    by (simp add: assms(1))
qed

theorem success_timer_never_cancelled_witness:
  "timers over_ceiling = []
   \<and> timers stale_success ! 0 = (''mintStatus'', 5000)
   \<and> innerHTML (document stale_success ''mintStatus'') = ''Maximum mint amount is 1000 tokens''
   \<and> classList (document stale_success ''mintStatus'') = [''status'', ''error'']
   \<and> ''hidden'' \<in> set (classList (document (fire_timer 0 stale_success) ''mintStatus''))
   \<and> innerHTML (document (fire_timer 0 stale_success) ''mintStatus'')
       = ''Maximum mint amount is 1000 tokens''"
proof -
  have t: "timers over_ceiling = []"
    by (simp add: over_ceiling_def bound_def MonadDemo_def)
  have shown: "innerHTML (document stale_success ''mintStatus'') = ''Maximum mint amount is 1000 tokens''"
    "classList (document stale_success ''mintStatus'') = [''status'', ''error'']"
    by (simp_all add: stale_success_def run_def over_ceiling_def bound_def MonadDemo_def form_def
        mintTokens_def example_env_def classList_remove_def)
  from success_timer_never_cancelled [of 0 over_ceiling stale_success "[(example_env, MintBtn)]"
      "''mintStatus''" "''Successfully minted 5 CHAL tokens!''" _ "''x''" "''info''" "[]"] t shown
  show ?thesis by (simp add: stale_success_def)
qed

section \<open>The transaction history display\<close>

lemma tx_html_now [simp]: "tx_html (env\<lparr>now := t\<rparr>) = tx_html env"
  by (rule ext) (simp add: tx_html_def)

lemma history_entries_now [simp]: "history_entries (env\<lparr>now := t\<rparr>) = history_entries env"
  by (rule ext) (simp add: history_entries_def)

lemma add_one_txHistory [simp]:
  "txHistory (add_one env a s) = record_of a # txHistory s"
  by (cases a rule: record_of.cases) simp

lemma add_all_txHistory:
  "txHistory (add_all env adds s) = rev (map record_of adds) @ txHistory s"
  unfolding add_all_def
  by (induction adds arbitrary: s) simp_all

lemma add_one_display:
  "innerHTML (document (add_one env a s) ''txHistory'')
     = concat (history_entries env (record_of a # txHistory s))"
  by (cases a rule: record_of.cases)
    (simp add: addTransaction_def updateTransactionHistory_def)

lemma add_all_snoc: "add_all env (adds @ [a]) s = add_one env a (add_all env adds s)"
  by (simp add: add_all_def)

lemma add_all_display:
  assumes "adds \<noteq> []"
  shows "innerHTML (document (add_all env adds s) ''txHistory'')
     = concat (history_entries env (txHistory (add_all env adds s)))"
proof -
  from assms obtain bs a where "adds = bs @ [a]"
    by (cases adds rule: rev_cases) auto
  then show ?thesis
    by (simp add: add_all_snoc add_one_display)
qed

text \<open>
  Claim C6. Whatever the log holds, the display is built from at most 10 fragments, one
  for each of the first 10 records of the log, in the log's order; an empty log shows the
  placeholder. The log holds the records in the reverse of the order in which they were
  added, so the fragments shown are those of the latest records, latest first: after the
  records \<open>adds\<close> have been added to the empty log, fragment \<open>k\<close> renders the record added
  \<open>k\<close> steps before the last.
\<close>

theorem history_shows_latest_ten:
  "length (history_entries env (txHistory s)) = min 10 (length (txHistory s))
   \<and> length (history_entries env (txHistory s)) \<le> 10
   \<and> innerHTML (document (updateTransactionHistory env s) ''txHistory'')
       = (if txHistory s = [] then ''<p>No transactions yet...</p>''
          else concat (history_entries env (txHistory s)))
   \<and> txHistory (add_all env adds (MonadDemo page)) = rev (map record_of adds)
   \<and> (adds \<noteq> [] \<longrightarrow>
        innerHTML (document (add_all env adds (MonadDemo page)) ''txHistory'')
          = concat (history_entries env (rev (map record_of adds))))
   \<and> (\<forall>k < min 10 (length adds).
        history_entries env (txHistory (add_all env adds (MonadDemo page))) ! k
          = tx_html env (record_of (adds ! (length adds - 1 - k))))"
proof -
  have h: "txHistory (add_all env adds (MonadDemo page)) = rev (map record_of adds)"
    by (simp add: add_all_txHistory MonadDemo_def)
  have d: "adds \<noteq> [] \<longrightarrow>
        innerHTML (document (add_all env adds (MonadDemo page)) ''txHistory'')
          = concat (history_entries env (rev (map record_of adds)))"
    using add_all_display [of adds env "MonadDemo page"] by (simp add: h)
  have k: "\<forall>k < min 10 (length adds).
        history_entries env (txHistory (add_all env adds (MonadDemo page))) ! k
          = tx_html env (record_of (adds ! (length adds - 1 - k)))"
  proof (intro allI impI)
    fix k assume b: "k < min 10 (length adds)"
    then have "length adds - 1 - k < length adds" by arith
    then have "map record_of adds ! (length adds - 1 - k) = record_of (adds ! (length adds - 1 - k))"
      by (rule nth_map)
    with b show "history_entries env (txHistory (add_all env adds (MonadDemo page))) ! k
          = tx_html env (record_of (adds ! (length adds - 1 - k)))"
      by (simp add: h history_entries_def rev_nth)
  qed
  have n: "length (history_entries env (txHistory s)) = min 10 (length (txHistory s))"
    by (simp add: history_entries_def min.commute)
  have u: "innerHTML (document (updateTransactionHistory env s) ''txHistory'')
       = (if txHistory s = [] then ''<p>No transactions yet...</p>''
          else concat (history_entries env (txHistory s)))"
    by (simp add: updateTransactionHistory_def)
  from n have "length (history_entries env (txHistory s)) \<le> 10" by simp
  with n u h d k show ?thesis by blast
qed

theorem history_shows_latest_ten_witness:
  "length eleven = 11
   \<and> length (history_entries example_env
        (txHistory (add_all example_env eleven (MonadDemo (\<lambda>i. blank))))) = 10
   \<and> history_entries example_env
        (txHistory (add_all example_env eleven (MonadDemo (\<lambda>i. blank)))) ! 0
       = tx_html example_env (record_of (11, ''Mint'', ''0x0b'', ''5 CHAL''))
   \<and> history_entries example_env
        (txHistory (add_all example_env eleven (MonadDemo (\<lambda>i. blank)))) ! 9
       = tx_html example_env (record_of (2, ''Mint'', ''0x02'', ''5 CHAL''))"
proof -
  have l: "length eleven = 11" by (simp add: eleven_def)
  have e: "eleven ! 10 = (11, ''Mint'', ''0x0b'', ''5 CHAL'')"
    "eleven ! 1 = (2, ''Mint'', ''0x02'', ''5 CHAL'')"
    by (simp_all add: eleven_def)
  let ?h = "txHistory (add_all example_env eleven (MonadDemo (\<lambda>i. blank)))"
  note t = history_shows_latest_ten [of example_env
      "add_all example_env eleven (MonadDemo (\<lambda>i. blank))" eleven "\<lambda>i. blank"]
  from t have h: "?h = rev (map record_of eleven)" by blast
  from t have "length (history_entries example_env ?h) = min 10 (length ?h)" by blast
  with h l have n: "length (history_entries example_env ?h) = 10" by simp
  from t have k: "\<forall>k < min 10 (length eleven). history_entries example_env ?h ! k
      = tx_html example_env (record_of (eleven ! (length eleven - 1 - k)))" by blast
  from k l e have k0: "history_entries example_env ?h ! 0
      = tx_html example_env (record_of (11, ''Mint'', ''0x0b'', ''5 CHAL''))" by simp
  from k [rule_format, of 9] l e have k9: "history_entries example_env ?h ! 9
      = tx_html example_env (record_of (2, ''Mint'', ''0x02'', ''5 CHAL''))" by simp
  from l n k0 k9 show ?thesis by blast
qed

section \<open>Requests and the log of a Mint or Transfer run\<close>

lemma issued_append [simp]: "calls s' = calls s @ cs \<Longrightarrow> issued s s' = cs"
  by (simp add: issued_def)

lemma issued_same [simp]: "calls s' = calls s \<Longrightarrow> issued s s' = []"
  by (simp add: issued_def)

lemma updateTokenInfo_calls:
  "\<exists>cs. calls (updateTokenInfo env s) = calls s @ cs \<and> submitted_hash env' cs = None"
  by (simp add: updateTokenInfo_def Let_def split: option.splits sum.splits)

lemma mint_confirm_calls:
  "\<exists>cs. calls (mint_confirm env amount h s) = calls s @ Wait h # cs
     \<and> submitted_hash env' cs = None"
proof (cases "wait env h")
  case (Inl m)
  then show ?thesis by (simp add: mint_confirm_def Let_def)
next
  case (Inr u)
  let ?s2 = "showStatus ''mintStatus'' (''Successfully minted '' @ amount @ '' CHAL tokens!'')
               ''success'' (issue (Wait h) s)"
  from updateTokenInfo_calls [of env ?s2 env'] obtain cs
    where "calls (updateTokenInfo env ?s2) = calls ?s2 @ cs" "submitted_hash env' cs = None"
    by blast
  with Inr show ?thesis by (simp add: mint_confirm_def Let_def)
qed

lemma transfer_confirm_calls:
  "\<exists>cs. calls (transfer_confirm env amount h s) = calls s @ Wait h # cs
     \<and> submitted_hash env' cs = None"
proof (cases "wait env h")
  case (Inl m)
  then show ?thesis by (simp add: transfer_confirm_def Let_def)
next
  case (Inr u)
  let ?s2 = "showStatus ''transferStatus'' (''Successfully transferred '' @ amount @ '' CHAL!'')
               ''success'' (issue (Wait h) s)"
  from updateTokenInfo_calls [of env ?s2 env'] obtain cs
    where "calls (updateTokenInfo env ?s2) = calls ?s2 @ cs" "submitted_hash env' cs = None"
    by blast
  with Inr show ?thesis by (simp add: transfer_confirm_def Let_def)
qed

lemma mint_try_log:
  "txHistory (mint_try env amount s)
     = (case submitted_hash env (issued s (mint_try env amount s)) of
          None \<Rightarrow> txHistory s
        | Some h \<Rightarrow> \<lparr>type = ''Mint'', hash = h, details = amount @ '' CHAL'',
                      timestamp = now env\<rparr> # txHistory s)"
proof (cases "parseEther env amount")
  case (Inl m)
  then show ?thesis by (simp add: mint_try_def Let_def)
next
  case v: (Inr v)
  show ?thesis
  proof (cases "whitelistMint env v")
    case (Inl m)
    then have "calls (mint_try env amount s) = calls s @ [WhitelistMint v]"
      using v by (simp add: mint_try_def Let_def)
    then have "issued s (mint_try env amount s) = [WhitelistMint v]" by simp
    then show ?thesis using v Inl by (simp add: mint_try_def Let_def)
  next
    case h: (Inr h)
    let ?s4 = \<open>addTransaction env ''Mint'' h (amount @ '' CHAL'')
                 (showStatus ''mintStatus'' (''Transaction sent: '' @ h) ''info''
                    (issue (WhitelistMint v)
                       (showStatus ''mintStatus''
                          ''Minting tokens... <div class="loading"></div>'' ''info'' s)))\<close>
    have m: "mint_try env amount s = mint_confirm env amount h ?s4"
      using v h by (simp add: mint_try_def Let_def)
    from mint_confirm_calls [of env amount h ?s4 env] obtain cs
      where "calls (mint_confirm env amount h ?s4) = calls ?s4 @ Wait h # cs"
        "submitted_hash env cs = None" by blast
    then have "calls (mint_try env amount s) = calls s @ (WhitelistMint v # Wait h # cs)"
      using m by simp
    then have "issued s (mint_try env amount s) = WhitelistMint v # Wait h # cs" by simp
    then show ?thesis using h m by simp
  qed
qed

lemma transfer_try_log:
  "txHistory (transfer_try env to amount s)
     = (case submitted_hash env (issued s (transfer_try env to amount s)) of
          None \<Rightarrow> txHistory s
        | Some h \<Rightarrow> \<lparr>type = ''Transfer'', hash = h,
                      details = amount @ '' CHAL to '' @ formatAddress to,
                      timestamp = now env\<rparr> # txHistory s)"
proof (cases "parseEther env amount")
  case (Inl m)
  then show ?thesis by (simp add: transfer_try_def Let_def)
next
  case v: (Inr v)
  show ?thesis
  proof (cases "transfer env to v")
    case (Inl m)
    then have "calls (transfer_try env to amount s) = calls s @ [TransferCall to v]"
      using v by (simp add: transfer_try_def Let_def)
    then have "issued s (transfer_try env to amount s) = [TransferCall to v]" by simp
    then show ?thesis using v Inl by (simp add: transfer_try_def Let_def)
  next
    case h: (Inr h)
    let ?s4 = \<open>addTransaction env ''Transfer'' h (amount @ '' CHAL to '' @ formatAddress to)
                 (showStatus ''transferStatus'' (''Transaction sent: '' @ h) ''info''
                    (issue (TransferCall to v)
                       (showStatus ''transferStatus''
                          ''Transferring tokens... <div class="loading"></div>'' ''info'' s)))\<close>
    have m: "transfer_try env to amount s = transfer_confirm env amount h ?s4"
      using v h by (simp add: transfer_try_def Let_def)
    from transfer_confirm_calls [of env amount h ?s4 env] obtain cs
      where "calls (transfer_confirm env amount h ?s4) = calls ?s4 @ Wait h # cs"
        "submitted_hash env cs = None" by blast
    then have "calls (transfer_try env to amount s) = calls s @ (TransferCall to v # Wait h # cs)"
      using m by simp
    then have "issued s (transfer_try env to amount s) = TransferCall to v # Wait h # cs" by simp
    then show ?thesis using h m by simp
  qed
qed

lemma mintTokens_log:
  "txHistory (mintTokens env s)
     = (case submitted_hash env (issued s (mintTokens env s)) of
          None \<Rightarrow> txHistory s
        | Some h \<Rightarrow> \<lparr>type = ''Mint'', hash = h,
                      details = val (document s ''mintAmount'') @ '' CHAL'',
                      timestamp = now env\<rparr> # txHistory s)"
  by (simp add: mintTokens_def Let_def mint_try_log)

lemma transferTokens_log:
  "txHistory (transferTokens env s)
     = (case submitted_hash env (issued s (transferTokens env s)) of
          None \<Rightarrow> txHistory s
        | Some h \<Rightarrow> \<lparr>type = ''Transfer'', hash = h,
                      details = val (document s ''transferAmount'') @ '' CHAL to ''
                                  @ formatAddress (val (document s ''transferTo'')),
                      timestamp = now env\<rparr> # txHistory s)"
  by (simp add: transferTokens_def Let_def transfer_try_log)

lemma mint_try_sent:
  assumes "parseEther env amount = Inr v" and "whitelistMint env v = Inr h"
  shows "\<exists>s4. mint_try env amount s = mint_confirm env amount h s4
           \<and> txHistory s4 = \<lparr>type = ''Mint'', hash = h, details = amount @ '' CHAL'',
                                timestamp = now env\<rparr> # txHistory s
           \<and> calls s4 = calls s @ [WhitelistMint v]"
proof -
  let ?s4 = \<open>addTransaction env ''Mint'' h (amount @ '' CHAL'')
               (showStatus ''mintStatus'' (''Transaction sent: '' @ h) ''info''
                  (issue (WhitelistMint v)
                     (showStatus ''mintStatus''
                        ''Minting tokens... <div class="loading"></div>'' ''info'' s)))\<close>
  have "mint_try env amount s = mint_confirm env amount h ?s4"
    using assms by (simp add: mint_try_def Let_def)
  moreover have "txHistory ?s4 = \<lparr>type = ''Mint'', hash = h, details = amount @ '' CHAL'',
                                timestamp = now env\<rparr> # txHistory s"
    by simp
  moreover have "calls ?s4 = calls s @ [WhitelistMint v]" by simp
  ultimately show ?thesis by blast
qed

lemma transfer_try_sent:
  assumes "parseEther env amount = Inr v" and "transfer env to v = Inr h"
  shows "\<exists>s4. transfer_try env to amount s = transfer_confirm env amount h s4
           \<and> txHistory s4 = \<lparr>type = ''Transfer'', hash = h,
                                details = amount @ '' CHAL to '' @ formatAddress to,
                                timestamp = now env\<rparr> # txHistory s
           \<and> calls s4 = calls s @ [TransferCall to v]"
proof -
  let ?s4 = \<open>addTransaction env ''Transfer'' h (amount @ '' CHAL to '' @ formatAddress to)
               (showStatus ''transferStatus'' (''Transaction sent: '' @ h) ''info''
                  (issue (TransferCall to v)
                     (showStatus ''transferStatus''
                        ''Transferring tokens... <div class="loading"></div>'' ''info'' s)))\<close>
  have "transfer_try env to amount s = transfer_confirm env amount h ?s4"
    using assms by (simp add: transfer_try_def Let_def)
  moreover have "txHistory ?s4 = \<lparr>type = ''Transfer'', hash = h,
                                details = amount @ '' CHAL to '' @ formatAddress to,
                                timestamp = now env\<rparr> # txHistory s"
    by simp
  moreover have "calls ?s4 = calls s @ [TransferCall to v]" by simp
  ultimately show ?thesis by blast
qed

text \<open>
  Claim C3. In every run of Mint or Transfer the log gains a record exactly when a
  submission was issued and the contract capability answered it with a hash: the log is
  then the old log with one record, carrying that hash, at its head; otherwise (nothing
  submitted, or the submission rejected) the log is unchanged. The record is in the log
  when the wait for confirmation starts, and the confirmation stage, whether the wait
  succeeds or fails, adds none.
\<close>

theorem record_iff_submission_returned_hash:
  "txHistory (mintTokens env s)
     = (case submitted_hash env (issued s (mintTokens env s)) of
          None \<Rightarrow> txHistory s
        | Some h \<Rightarrow> \<lparr>type = ''Mint'', hash = h,
                      details = val (document s ''mintAmount'') @ '' CHAL'',
                      timestamp = now env\<rparr> # txHistory s)
   \<and> txHistory (transferTokens env s)
     = (case submitted_hash env (issued s (transferTokens env s)) of
          None \<Rightarrow> txHistory s
        | Some h \<Rightarrow> \<lparr>type = ''Transfer'', hash = h,
                      details = val (document s ''transferAmount'') @ '' CHAL to ''
                                  @ formatAddress (val (document s ''transferTo'')),
                      timestamp = now env\<rparr> # txHistory s)
   \<and> (parseEther env amount = Inr v \<and> whitelistMint env v = Inr h \<longrightarrow>
        (\<exists>s4. mint_try env amount s = mint_confirm env amount h s4
           \<and> txHistory s4 = \<lparr>type = ''Mint'', hash = h, details = amount @ '' CHAL'',
                                timestamp = now env\<rparr> # txHistory s
           \<and> calls s4 = calls s @ [WhitelistMint v]))
   \<and> (parseEther env amount = Inr v \<and> transfer env to v = Inr h \<longrightarrow>
        (\<exists>s4. transfer_try env to amount s = transfer_confirm env amount h s4
           \<and> txHistory s4 = \<lparr>type = ''Transfer'', hash = h,
                                details = amount @ '' CHAL to '' @ formatAddress to,
                                timestamp = now env\<rparr> # txHistory s
           \<and> calls s4 = calls s @ [TransferCall to v]))
   \<and> txHistory (mint_confirm env amount h s) = txHistory s
   \<and> txHistory (transfer_confirm env amount h s) = txHistory s"
  using mintTokens_log [of env s] transferTokens_log [of env s]
    mint_try_sent [of env amount v h s] transfer_try_sent [of env amount v to h s]
  by (simp only: mint_confirm_frame transfer_confirm_frame) blast

theorem record_iff_submission_returned_hash_witness:
  "txHistory (mintTokens example_env (bound ''5'' example_account ''5''))
     = [\<lparr>type = ''Mint'', hash = ''0xaa'', details = ''5 CHAL'', timestamp = 0\<rparr>]
   \<and> txHistory (mintTokens reverting_env (bound ''5'' example_account ''5''))
     = [\<lparr>type = ''Mint'', hash = ''0xaa'', details = ''5 CHAL'', timestamp = 0\<rparr>]
   \<and> txHistory (mintTokens rejecting_env (bound ''5'' example_account ''5'')) = []
   \<and> txHistory (transferTokens example_env (bound ''5'' example_account ''5''))
     = [\<lparr>type = ''Transfer'', hash = ''0xbb'', details = ''5 CHAL to 0x1111...1111'',
         timestamp = 0\<rparr>]
   \<and> txHistory (transferTokens rejecting_env (bound ''5'' example_account ''5'')) = []"
proof -
  let ?s = "bound ''5'' example_account ''5''"
  have v: "val (document ?s ''mintAmount'') = ''5''"
    "val (document ?s ''transferAmount'') = ''5''"
    "val (document ?s ''transferTo'') = example_account"
    "txHistory ?s = []" "calls ?s = []"
    by (simp_all add: bound_def MonadDemo_def form_def)
  have f: "formatAddress example_account = ''0x1111...1111''"
    by (simp add: formatAddress_def example_account_def)
  have c1: "submitted_hash example_env (issued ?s (mintTokens example_env ?s)) = Some ''0xaa''"
    by (simp add: issued_def mintTokens_def mint_try_def mint_confirm_def Let_def
        updateTokenInfo_def example_env_def bound_def MonadDemo_def form_def example_account_def)
  have c2: "submitted_hash reverting_env (issued ?s (mintTokens reverting_env ?s)) = Some ''0xaa''"
    by (simp add: issued_def mintTokens_def mint_try_def mint_confirm_def Let_def
        reverting_env_def example_env_def bound_def MonadDemo_def form_def example_account_def)
  have c3: "submitted_hash rejecting_env (issued ?s (mintTokens rejecting_env ?s)) = None"
    by (simp add: issued_def mintTokens_def mint_try_def Let_def
        rejecting_env_def example_env_def bound_def MonadDemo_def form_def example_account_def)
  have c4: "submitted_hash example_env (issued ?s (transferTokens example_env ?s)) = Some ''0xbb''"
    by (simp add: issued_def transferTokens_def transfer_try_def transfer_confirm_def Let_def
        updateTokenInfo_def example_env_def bound_def MonadDemo_def form_def example_account_def)
  have c5: "submitted_hash rejecting_env (issued ?s (transferTokens rejecting_env ?s)) = None"
    by (simp add: issued_def transferTokens_def transfer_try_def Let_def
        rejecting_env_def example_env_def bound_def MonadDemo_def form_def example_account_def)
  have n: "now example_env = 0" "now reverting_env = 0"
    by (simp_all add: example_env_def reverting_env_def)
  from record_iff_submission_returned_hash [of example_env ?s]
    record_iff_submission_returned_hash [of reverting_env ?s]
    record_iff_submission_returned_hash [of rejecting_env ?s]
  show ?thesis
    by (simp only: c1 c2 c3 c4 c5 v f n option.case) simp
qed

section \<open>Validation of the inputs of Mint and Transfer\<close>

lemma js_gt_not_le: "js_gt n c \<Longrightarrow> \<not> js_le n c"
  by (cases n) simp_all

lemma mint_try_calls:
  assumes "parseEther env amount = Inr v"
  shows "\<exists>rest. calls (mint_try env amount s) = calls s @ WhitelistMint v # rest"
proof (cases "whitelistMint env v")
  case (Inl m)
  with assms show ?thesis by (simp add: mint_try_def Let_def)
next
  case (Inr h)
  from mint_try_sent [OF assms Inr, of s] obtain s4
    where m: "mint_try env amount s = mint_confirm env amount h s4"
      and c: "calls s4 = calls s @ [WhitelistMint v]" by blast
  from mint_confirm_calls [of env amount h s4 env] obtain cs
    where "calls (mint_confirm env amount h s4) = calls s4 @ Wait h # cs" by blast
  with m c show ?thesis by simp
qed

lemma transfer_try_calls:
  assumes "parseEther env amount = Inr v"
  shows "\<exists>rest. calls (transfer_try env to amount s) = calls s @ TransferCall to v # rest"
proof (cases "transfer env to v")
  case (Inl m)
  with assms show ?thesis by (simp add: transfer_try_def Let_def)
next
  case (Inr h)
  from transfer_try_sent [OF assms Inr, of s] obtain s4
    where m: "transfer_try env to amount s = transfer_confirm env amount h s4"
      and c: "calls s4 = calls s @ [TransferCall to v]" by blast
  from transfer_confirm_calls [of env amount h s4 env] obtain cs
    where "calls (transfer_confirm env amount h s4) = calls s4 @ Wait h # cs" by blast
  with m c show ?thesis by simp
qed

text \<open>
  What \<^verbatim>\<open>mintTokens\<close> does with the amount field when a contract is bound: an empty text, or
  one whose number is at most 0, gets the first validation message; one whose number
  exceeds 1000 gets the second; both without a request or a record. A text whose number
  lies in (0, 1000] enters the \<^verbatim>\<open>try\<close> block, where the contract is called with the
  converted amount if the conversion succeeds.
\<close>

lemma mint_validation:
  assumes "contract s \<noteq> None" and "val (document s ''mintAmount'') = amount"
  shows "amount = [] \<or> js_le (toNumber env amount) 0 \<Longrightarrow>
           mintTokens env s = showStatus ''mintStatus'' ''Please enter a valid amount'' ''error'' s"
    and "amount \<noteq> [] \<Longrightarrow> \<not> js_le (toNumber env amount) 0 \<Longrightarrow> js_gt (toNumber env amount) 1000 \<Longrightarrow>
           mintTokens env s
             = showStatus ''mintStatus'' ''Maximum mint amount is 1000 tokens'' ''error'' s"
    and "amount \<noteq> [] \<Longrightarrow> toNumber env amount = Finite a \<Longrightarrow> 0 < a \<Longrightarrow> a \<le> 1000 \<Longrightarrow>
           mintTokens env s = mint_try env amount s"
    and "amount \<noteq> [] \<Longrightarrow> toNumber env amount = Finite a \<Longrightarrow> 0 < a \<Longrightarrow> a \<le> 1000 \<Longrightarrow>
           parseEther env amount = Inr v \<Longrightarrow>
           \<exists>rest. calls (mintTokens env s) = calls s @ WhitelistMint v # rest"
  using assms mint_try_calls [of env amount v s]
  by (auto simp add: mintTokens_def Let_def)

text \<open>
  Claim C2 says that Mint fails with a validation error, and without any request, exactly
  when the amount is not a positive number or exceeds 1000. The two comparisons of the
  source are false for \<^verbatim>\<open>NaN\<close>: with the text \<^verbatim>\<open>abc\<close> in the amount field and a contract
  bound, neither validation message is shown; the run enters the \<^verbatim>\<open>try\<close> block, where
  \<^verbatim>\<open>parseEther\<close> throws, and ends with a logged error and the status of a failed mint.
\<close>

theorem mint_accepts_nan_amount:
  "contract nan_amount \<noteq> None
   \<and> val (document nan_amount ''mintAmount'') = ''abc''
   \<and> toNumber example_env ''abc'' = NaN
   \<and> innerHTML (document (mintTokens example_env nan_amount) ''mintStatus'')
       = ''Mint failed: invalid decimal value''
   \<and> console (mintTokens example_env nan_amount) = [(''Mint error:'', ''invalid decimal value'')]
   \<and> calls (mintTokens example_env nan_amount) = []"
  by (simp add: nan_amount_def bound_def MonadDemo_def form_def example_env_def
      mintTokens_def mint_try_def mint_catch_def Let_def)

lemma transfer_try_conversion_fails:
  assumes "parseEther env amount = Inl m"
  shows "calls (transfer_try env to amount s) = calls s"
    and "txHistory (transfer_try env to amount s) = txHistory s"
    and "console (transfer_try env to amount s) = console s @ [(''Transfer error:'', m)]"
    and "innerHTML (document (transfer_try env to amount s) ''transferStatus'')
           = ''Transfer failed: '' @ m"
  using assms by (simp_all add: transfer_try_def transfer_catch_def Let_def)

text \<open>
  Claim C4 says that for every well-formed address and amount above 0, Transfer proceeds
  to submission. The amount check of the source compares the number the runtime reads
  from the text; the submission first converts the text itself with \<^verbatim>\<open>parseEther\<close>, which
  accepts fewer texts. With a contract bound, a well-formed destination and the amount
  text \<^verbatim>\<open>1e2\<close>, which reads as 100, the conversion throws inside the \<^verbatim>\<open>try\<close> block: no
  request is issued, no record is added, and the slot reports a failed transfer.
\<close>

theorem transfer_stops_at_conversion:
  "contract exponent_transfer \<noteq> None
   \<and> val (document exponent_transfer ''transferTo'') = example_account
   \<and> isAddress exponent_env example_account
   \<and> val (document exponent_transfer ''transferAmount'') = ''1e2''
   \<and> toNumber exponent_env ''1e2'' = Finite 100
   \<and> parseEther exponent_env ''1e2'' = Inl ''invalid decimal value''
   \<and> calls (transferTokens exponent_env exponent_transfer) = []
   \<and> txHistory (transferTokens exponent_env exponent_transfer) = []
   \<and> innerHTML (document (transferTokens exponent_env exponent_transfer) ''transferStatus'')
       = ''Transfer failed: invalid decimal value''"
  by (simp add: exponent_env_def exponent_transfer_def example_env_def example_account_def
      bound_def MonadDemo_def form_def transferTokens_def transfer_try_def transfer_catch_def
      Let_def)

text \<open>
  Claim C4, amended, for a Transfer with a contract bound. If the destination text is not
  a well-formed address, the run shows the address validation message and does nothing
  else: no request, no record. If it is well formed (and so not empty) and the amount
  text is not empty and reads as a number above 0, however large, the run passes
  validation and enters the \<^verbatim>\<open>try\<close> block of the submission. There, when the amount text
  converts to base units, the transfer call with that destination and amount is the first
  request issued; when the conversion fails, no request is issued and no record is added,
  and the failure is logged and shown as a failed transfer.
\<close>

theorem transfer_validation:
  assumes "contract s \<noteq> None"
    and "val (document s ''transferTo'') = to"
    and "val (document s ''transferAmount'') = amount"
  shows "(\<not> isAddress env to \<longrightarrow>
            transferTokens env s
              = showStatus ''transferStatus'' ''Please enter a valid address'' ''error'' s
            \<and> calls (transferTokens env s) = calls s
            \<and> txHistory (transferTokens env s) = txHistory s)
    \<and> (isAddress env to \<and> to \<noteq> [] \<and> amount \<noteq> [] \<and> js_gt (toNumber env amount) 0 \<longrightarrow>
            transferTokens env s = transfer_try env to amount s
            \<and> (\<forall>v. parseEther env amount = Inr v \<longrightarrow>
                  (\<exists>rest. calls (transferTokens env s) = calls s @ TransferCall to v # rest))
            \<and> (\<forall>m. parseEther env amount = Inl m \<longrightarrow>
                  calls (transferTokens env s) = calls s
                  \<and> txHistory (transferTokens env s) = txHistory s
                  \<and> console (transferTokens env s) = console s @ [(''Transfer error:'', m)]
                  \<and> innerHTML (document (transferTokens env s) ''transferStatus'')
                      = ''Transfer failed: '' @ m))"
proof -
  have 1: "\<not> isAddress env to \<longrightarrow>
            transferTokens env s
              = showStatus ''transferStatus'' ''Please enter a valid address'' ''error'' s
            \<and> calls (transferTokens env s) = calls s
            \<and> txHistory (transferTokens env s) = txHistory s"
    using assms by (auto simp add: transferTokens_def Let_def)
  have 2: "transferTokens env s = transfer_try env to amount s"
    if "isAddress env to \<and> to \<noteq> [] \<and> amount \<noteq> [] \<and> js_gt (toNumber env amount) 0"
    using assms that js_gt_not_le [of "toNumber env amount" 0]
    by (auto simp add: transferTokens_def Let_def)
  show ?thesis
    using 1 2 transfer_try_calls [of env amount _ to s]
      transfer_try_conversion_fails [of env amount _ to s]
    by (auto simp del: not_None_eq)
qed

theorem transfer_validation_witness:
  "contract bad_address \<noteq> None
   \<and> \<not> isAddress example_env ''0x12''
   \<and> innerHTML (document (transferTokens example_env bad_address) ''transferStatus'')
       = ''Please enter a valid address''
   \<and> calls (transferTokens example_env bad_address) = []
   \<and> isAddress example_env example_account
   \<and> toNumber example_env ''5000'' = Finite 5000
   \<and> parseEther example_env ''5000'' = Inr 5000000000000000000000
   \<and> transferTokens example_env large_transfer
       = transfer_try example_env example_account ''5000'' large_transfer
   \<and> take 1 (calls (transferTokens example_env large_transfer))
       = [TransferCall example_account 5000000000000000000000]
   \<and> console (transferTokens exponent_env exponent_transfer)
       = [(''Transfer error:'', ''invalid decimal value'')]"
proof -
  have b: "contract bad_address \<noteq> None" "val (document bad_address ''transferTo'') = ''0x12''"
    "val (document bad_address ''transferAmount'') = ''5''" "calls bad_address = []"
    by (simp_all add: bad_address_def bound_def MonadDemo_def form_def)
  have l: "contract large_transfer \<noteq> None"
    "val (document large_transfer ''transferTo'') = example_account"
    "val (document large_transfer ''transferAmount'') = ''5000''" "calls large_transfer = []"
    by (simp_all add: large_transfer_def bound_def MonadDemo_def form_def)
  have x: "contract exponent_transfer \<noteq> None"
    "val (document exponent_transfer ''transferTo'') = example_account"
    "val (document exponent_transfer ''transferAmount'') = ''1e2''"
    "console exponent_transfer = []"
    by (simp_all add: exponent_transfer_def bound_def MonadDemo_def form_def)
  have e: "\<not> isAddress example_env ''0x12''" "isAddress example_env example_account"
    "toNumber example_env ''5000'' = Finite 5000"
    "parseEther example_env ''5000'' = Inr 5000000000000000000000"
    "example_account \<noteq> []"
    by (simp_all add: example_env_def example_account_def)
  have ex: "isAddress exponent_env example_account"
    "js_gt (toNumber exponent_env ''1e2'') 0"
    "parseEther exponent_env ''1e2'' = Inl ''invalid decimal value''"
    by (simp_all add: exponent_env_def example_env_def)
  note t1 = transfer_validation [OF b(1) b(2) b(3), of example_env]
  from t1 e(1) have "transferTokens example_env bad_address
      = showStatus ''transferStatus'' ''Please enter a valid address'' ''error'' bad_address"
    and "calls (transferTokens example_env bad_address) = calls bad_address"
    by blast+
  with b(4) have 1: "innerHTML (document (transferTokens example_env bad_address) ''transferStatus'')
       = ''Please enter a valid address''"
    "calls (transferTokens example_env bad_address) = []"
    by simp_all
  have g: "js_gt (toNumber example_env ''5000'') 0" by (simp add: e(3))
  have a: "''5000'' \<noteq> []" "''1e2'' \<noteq> []" by simp_all
  note t2 = transfer_validation [OF l(1) l(2) l(3), of example_env]
  from t2 e(2) e(5) a(1) g have 2: "transferTokens example_env large_transfer
       = transfer_try example_env example_account ''5000'' large_transfer"
    and "\<forall>v. parseEther example_env ''5000'' = Inr v \<longrightarrow>
       (\<exists>rest. calls (transferTokens example_env large_transfer)
          = calls large_transfer @ TransferCall example_account v # rest)"
    by blast+
  with e(4) l(4) have "\<exists>rest. calls (transferTokens example_env large_transfer)
       = TransferCall example_account 5000000000000000000000 # rest"
    by (metis append_Nil)
  then have 3: "take 1 (calls (transferTokens example_env large_transfer))
       = [TransferCall example_account 5000000000000000000000]"
    by auto
  note t3 = transfer_validation [OF x(1) x(2) x(3), of exponent_env]
  from t3 ex(1) e(5) a(2) ex(2)
  have "\<forall>m. parseEther exponent_env ''1e2'' = Inl m \<longrightarrow>
      console (transferTokens exponent_env exponent_transfer)
        = console exponent_transfer @ [(''Transfer error:'', m)]"
    by blast
  with ex(3) x(4) have 4: "console (transferTokens exponent_env exponent_transfer)
       = [(''Transfer error:'', ''invalid decimal value'')]"
    by simp
  from b(1) e 1 2 3 4 show ?thesis by blast
qed

text \<open>
  Claim C10. With a contract bound, an amount text that is not empty and whose number is
  \<^verbatim>\<open>NaN\<close> passes the amount checks of Mint and of Transfer (for Transfer, behind a
  well-formed destination): the run enters the \<^verbatim>\<open>try\<close> block. When \<^verbatim>\<open>parseEther\<close> rejects
  the text there, the error is caught: it is logged, the slot shows the failure with the
  library's message, and no request or record has been made.
\<close>

theorem nan_amount_reaches_submission:
  assumes "contract s \<noteq> None"
    and "amount \<noteq> []"
    and "toNumber env amount = NaN"
    and "parseEther env amount = Inl m"
  shows \<open>(val (document s ''mintAmount'') = amount \<longrightarrow>
            mintTokens env s = mint_try env amount s
            \<and> mintTokens env s
                = mint_catch m (showStatus ''mintStatus''
                                  ''Minting tokens... <div class="loading"></div>'' ''info'' s)
            \<and> innerHTML (document (mintTokens env s) ''mintStatus'') = ''Mint failed: '' @ m
            \<and> console (mintTokens env s) = console s @ [(''Mint error:'', m)]
            \<and> calls (mintTokens env s) = calls s
            \<and> txHistory (mintTokens env s) = txHistory s)
    \<and> (val (document s ''transferTo'') = to \<and> to \<noteq> [] \<and> isAddress env to
         \<and> val (document s ''transferAmount'') = amount \<longrightarrow>
            transferTokens env s = transfer_try env to amount s
            \<and> transferTokens env s
                = transfer_catch m (showStatus ''transferStatus''
                                      ''Transferring tokens... <div class="loading"></div>'' ''info'' s)
            \<and> innerHTML (document (transferTokens env s) ''transferStatus'')
                = ''Transfer failed: '' @ m
            \<and> console (transferTokens env s) = console s @ [(''Transfer error:'', m)]
            \<and> calls (transferTokens env s) = calls s
            \<and> txHistory (transferTokens env s) = txHistory s)\<close>
  using assms
  by (auto simp add: mintTokens_def transferTokens_def mint_try_def transfer_try_def
      mint_catch_def transfer_catch_def Let_def)

theorem nan_amount_reaches_submission_witness:
  "contract nan_amount \<noteq> None
   \<and> toNumber example_env ''abc'' = NaN
   \<and> parseEther example_env ''abc'' = Inl ''invalid decimal value''
   \<and> innerHTML (document (mintTokens example_env nan_amount) ''mintStatus'')
       = ''Mint failed: invalid decimal value''
   \<and> calls (mintTokens example_env nan_amount) = []
   \<and> innerHTML (document (transferTokens example_env nan_amount) ''transferStatus'')
       = ''Transfer failed: invalid decimal value''
   \<and> calls (transferTokens example_env nan_amount) = []"
proof -
  have s: "contract nan_amount \<noteq> None" "val (document nan_amount ''mintAmount'') = ''abc''"
    "val (document nan_amount ''transferAmount'') = ''abc''"
    "val (document nan_amount ''transferTo'') = example_account" "calls nan_amount = []"
    by (simp_all add: nan_amount_def bound_def MonadDemo_def form_def)
  have e: "toNumber example_env ''abc'' = NaN"
    "parseEther example_env ''abc'' = Inl ''invalid decimal value''"
    "isAddress example_env example_account" "example_account \<noteq> []"
    by (simp_all add: example_env_def example_account_def)
  have a: "''abc'' \<noteq> []" by simp
  note t = nan_amount_reaches_submission [OF s(1) a e(1) e(2), of example_account]
  from t s(2) have "innerHTML (document (mintTokens example_env nan_amount) ''mintStatus'')
       = ''Mint failed: '' @ ''invalid decimal value''"
    and "calls (mintTokens example_env nan_amount) = calls nan_amount"
    by blast+
  with s(5) have 1: "innerHTML (document (mintTokens example_env nan_amount) ''mintStatus'')
       = ''Mint failed: invalid decimal value''"
    "calls (mintTokens example_env nan_amount) = []"
    by simp_all
  from t s(3) s(4) e(3) e(4)
  have "innerHTML (document (transferTokens example_env nan_amount) ''transferStatus'')
       = ''Transfer failed: '' @ ''invalid decimal value''"
    and "calls (transferTokens example_env nan_amount) = calls nan_amount"
    by blast+
  with s(5) have 2: "innerHTML (document (transferTokens example_env nan_amount) ''transferStatus'')
       = ''Transfer failed: invalid decimal value''"
    "calls (transferTokens example_env nan_amount) = []"
    by simp_all
  from s(1) e(1) e(2) 1 2 show ?thesis by blast
qed

end
